theory Spec2Isabelle
  imports Main "HOL-Library.Word"
begin

section \<open>Byte strings and hexadecimal text\<close>

text \<open>
  A Go \<^verbatim>\<open>[]byte\<close> is a list of 8-bit words. Where the source tells a nil slice from an
  empty one (\<^verbatim>\<open>pubKeyHash == nil\<close> in FindUTXO) the argument is a \<open>bytes option\<close>, with
  \<open>None\<close> for nil. Everywhere else the source only takes lengths, compares contents or
  encodes, and nil and empty agree.
\<close>

type_synonym byte = "8 word"
type_synonym bytes = "byte list"

text \<open>\<^verbatim>\<open>[]byte(s)\<close> for a Go string \<open>s\<close>.\<close>

definition bytes_of_string :: "string \<Rightarrow> bytes" where
  "bytes_of_string s = map (\<lambda>c. of_nat (of_char c)) s"

text \<open>\<^verbatim>\<open>hex.EncodeToString\<close> and \<^verbatim>\<open>fmt.Sprintf("%x", b)\<close>: two lower-case digits a byte.\<close>

definition hexdigit :: "nat \<Rightarrow> char" where
  "hexdigit n = ''0123456789abcdef'' ! n"

definition hex_byte :: "byte \<Rightarrow> string" where
  "hex_byte b = [hexdigit (unat b div 16), hexdigit (unat b mod 16)]"

definition EncodeToString :: "bytes \<Rightarrow> string" where
  "EncodeToString bs = concat (map hex_byte bs)"

text \<open>
  \<^verbatim>\<open>hex.DecodeString\<close>: the bytes decoded before the first problem, and whether the error
  is nil. Both cases of a hex digit are accepted; a string of odd length is an error.
\<close>

definition fromHexChar :: "char \<Rightarrow> nat option" where
  "fromHexChar c =
     (let n = (of_char c :: nat) in
      if 48 \<le> n \<and> n \<le> 57 then Some (n - 48)
      else if 97 \<le> n \<and> n \<le> 102 then Some (n - 97 + 10)
      else if 65 \<le> n \<and> n \<le> 70 then Some (n - 65 + 10)
      else None)"

fun DecodeString :: "string \<Rightarrow> bytes \<times> bool" where
  "DecodeString (p # q # rest) =
     (case fromHexChar p of
        None \<Rightarrow> ([], False)
      | Some a \<Rightarrow>
          (case fromHexChar q of
             None \<Rightarrow> ([], False)
           | Some b \<Rightarrow>
               (case DecodeString rest of (bs, ok) \<Rightarrow> (of_nat (a * 16 + b) # bs, ok))))"
| "DecodeString [p] = ([], False)"
| "DecodeString [] = ([], True)"

section \<open>Transactions, blocks and the chain\<close>

text \<open>
  The structs of transaction.go, block.go and blockchain.go. Go's \<^verbatim>\<open>int\<close> is a 64-bit
  signed integer: it is an \<open>int\<close> here, and the one place where the source does
  arithmetic on it (adding output values) wraps through \<open>wrap64\<close>. The field
  \<^verbatim>\<open>TxInput.Vout\<close> is named \<open>VoutIdx\<close>, since \<^verbatim>\<open>Transaction.Vout\<close> keeps the name \<open>Vout\<close>.
\<close>

record TxInput =
  Txid :: bytes
  VoutIdx :: int
  Signature :: bytes
  PubKey :: bytes

record TxOutput =
  Value :: int
  PubKeyHash :: bytes

record Transaction =
  ID :: bytes
  Vin :: "TxInput list"
  Vout :: "TxOutput list"

record Block =
  Timestamp :: int
  Transactions :: "Transaction list"
  PrevHash :: bytes
  Hash :: bytes
  Nonce :: int

record Blockchain =
  Blocks :: "Block list"

definition wrap64 :: "int \<Rightarrow> int" where
  "wrap64 x = (x + 2 ^ 63) mod 2 ^ 64 - 2 ^ 63"

definition IsCoinbase :: "Transaction \<Rightarrow> bool" where
  "IsCoinbase tx \<longleftrightarrow>
     length (Vin tx) = 1 \<and> length (Txid (hd (Vin tx))) = 0 \<and> VoutIdx (hd (Vin tx)) = - 1"

section \<open>Blockchain.FindUTXO\<close>

text \<open>
  The two maps of the scan, keyed by hex transaction ids. \<^verbatim>\<open>append(m[k], v)\<close> on a
  missing key appends to nil.
\<close>

type_synonym spent_map = "string \<rightharpoonup> int list"
type_synonym utxo_map = "string \<rightharpoonup> TxOutput list"

definition append_at :: "(string \<rightharpoonup> 'a list) \<Rightarrow> string \<Rightarrow> 'a \<Rightarrow> (string \<rightharpoonup> 'a list)" where
  "append_at m k v = m(k \<mapsto> (case m k of None \<Rightarrow> [] | Some vs \<Rightarrow> vs) @ [v])"

definition is_spent :: "spent_map \<Rightarrow> string \<Rightarrow> nat \<Rightarrow> bool" where
  "is_spent spentTXOs txIDStr outIdx =
     (case spentTXOs txIDStr of None \<Rightarrow> False | Some spent \<Rightarrow> int outIdx \<in> set spent)"

definition owner_matches :: "bytes option \<Rightarrow> TxOutput \<Rightarrow> bool" where
  "owner_matches pubKeyHash out =
     (case pubKeyHash of None \<Rightarrow> True | Some h \<Rightarrow> PubKeyHash out = h)"

fun scan_outputs ::
  "bytes option \<Rightarrow> spent_map \<Rightarrow> string \<Rightarrow> (nat \<times> TxOutput) list \<Rightarrow> utxo_map \<Rightarrow> utxo_map" where
  "scan_outputs pubKeyHash spentTXOs txIDStr [] UTXOs = UTXOs"
| "scan_outputs pubKeyHash spentTXOs txIDStr ((outIdx, out) # rest) UTXOs =
     (if is_spent spentTXOs txIDStr outIdx
      then scan_outputs pubKeyHash spentTXOs txIDStr rest UTXOs
      else if owner_matches pubKeyHash out
      then scan_outputs pubKeyHash spentTXOs txIDStr rest (append_at UTXOs txIDStr out)
      else scan_outputs pubKeyHash spentTXOs txIDStr rest UTXOs)"

definition record_spent :: "Transaction \<Rightarrow> spent_map \<Rightarrow> spent_map" where
  "record_spent tx spentTXOs =
     (if IsCoinbase tx then spentTXOs
      else fold (\<lambda>inp m. append_at m (EncodeToString (Txid inp)) (VoutIdx inp)) (Vin tx) spentTXOs)"

definition scan_tx ::
  "bytes option \<Rightarrow> Transaction \<Rightarrow> spent_map \<times> utxo_map \<Rightarrow> spent_map \<times> utxo_map" where
  "scan_tx pubKeyHash tx st =
     (case st of (spentTXOs, UTXOs) \<Rightarrow>
        (record_spent tx spentTXOs,
         scan_outputs pubKeyHash spentTXOs (EncodeToString (ID tx)) (enumerate 0 (Vout tx)) UTXOs))"

definition FindUTXO :: "Blockchain \<Rightarrow> bytes option \<Rightarrow> utxo_map" where
  "FindUTXO bc pubKeyHash =
     snd (fold (\<lambda>block st. fold (scan_tx pubKeyHash) (Transactions block) st)
            (Blocks bc) (Map.empty, Map.empty))"

section \<open>The UTXO set (utxo.go)\<close>

text \<open>
  A call that can panic returns an \<open>outcome\<close>.
  \<^verbatim>\<open>UTXOSet\<close> holds a pointer to the chain, which may be nil. Go visits the keys of a map
  in an order it does not specify: the functions that range over a map take that order
  as the list \<open>ks\<close>, and the theorems about them hold for every enumeration of the keys.
\<close>

datatype 'a outcome = Panic | Done 'a

record UTXOSet =
  BC :: "Blockchain option"

definition Reindex :: "UTXOSet \<Rightarrow> utxo_map" where
  "Reindex u = (case BC u of None \<Rightarrow> Map.empty | Some bc \<Rightarrow> FindUTXO bc None)"

definition bytes_arg :: "bytes option \<Rightarrow> bytes" where
  "bytes_arg b = (case b of None \<Rightarrow> [] | Some h \<Rightarrow> h)"

text \<open>
  The inner loop of FindSpendableOutputs over one entry of the map. The state is
  (returned, accumulated, unspentOuts); once the function has returned nothing changes.
  \<open>outIdx\<close> is the position in the list that FindUTXO returned for the transaction.
\<close>

fun select_outs ::
  "bytes option \<Rightarrow> int \<Rightarrow> string \<Rightarrow> (nat \<times> TxOutput) list \<Rightarrow>
   bool \<times> int \<times> spent_map \<Rightarrow> bool \<times> int \<times> spent_map" where
  "select_outs pubKeyHash amount txID [] st = st"
| "select_outs pubKeyHash amount txID ((outIdx, out) # rest) (returned, accumulated, unspentOuts) =
     (if returned then (returned, accumulated, unspentOuts)
      else if PubKeyHash out = bytes_arg pubKeyHash \<and> accumulated < amount
      then (let accumulated' = wrap64 (accumulated + Value out);
                unspentOuts' = append_at unspentOuts txID (int outIdx)
            in if accumulated' \<ge> amount then (True, accumulated', unspentOuts')
               else select_outs pubKeyHash amount txID rest (False, accumulated', unspentOuts'))
      else select_outs pubKeyHash amount txID rest (returned, accumulated, unspentOuts))"

definition select_entry ::
  "bytes option \<Rightarrow> int \<Rightarrow> utxo_map \<Rightarrow> string \<Rightarrow>
   bool \<times> int \<times> spent_map \<Rightarrow> bool \<times> int \<times> spent_map" where
  "select_entry pubKeyHash amount UTXO txID st =
     (case UTXO txID of
        None \<Rightarrow> st
      | Some outs \<Rightarrow> select_outs pubKeyHash amount txID (enumerate 0 outs) st)"

text \<open>A nil \<^verbatim>\<open>u.BC\<close> is a nil dereference inside FindUTXO: the call panics.\<close>

definition FindSpendableOutputs ::
  "string list \<Rightarrow> UTXOSet \<Rightarrow> bytes option \<Rightarrow> int \<Rightarrow> (int \<times> spent_map) outcome" where
  "FindSpendableOutputs ks u pubKeyHash amount =
     (case BC u of
        None \<Rightarrow> Panic
      | Some bc \<Rightarrow>
          (case fold (select_entry pubKeyHash amount (FindUTXO bc pubKeyHash)) ks
                  (False, 0, Map.empty) of
             (returned, accumulated, unspentOuts) \<Rightarrow> Done (accumulated, unspentOuts)))"

text \<open>UTXOSet.Update changes the map it is given and nothing else.\<close>

definition remove_spent :: "TxInput \<Rightarrow> utxo_map \<Rightarrow> utxo_map" where
  "remove_spent vin utxo =
     (let k = EncodeToString (Txid vin);
          outs = (case utxo k of None \<Rightarrow> [] | Some os \<Rightarrow> os);
          updatedOuts = map snd (filter (\<lambda>p. int (fst p) \<noteq> VoutIdx vin) (enumerate 0 outs))
      in if length updatedOuts = 0 then utxo(k := None) else utxo(k \<mapsto> updatedOuts))"

definition update_tx :: "Transaction \<Rightarrow> utxo_map \<Rightarrow> utxo_map" where
  "update_tx tx utxo =
     (let utxo' = (if IsCoinbase tx then utxo else fold remove_spent (Vin tx) utxo)
      in utxo'(EncodeToString (ID tx) \<mapsto> Vout tx))"

definition Update :: "Block \<Rightarrow> utxo_map \<Rightarrow> utxo_map" where
  "Update block utxo = fold update_tx (Transactions block) utxo"

section \<open>Addresses (wallet.go) and balances (handlers.go)\<close>

definition ValidateAddress :: "string \<Rightarrow> bool" where
  "ValidateAddress address \<longleftrightarrow> length address > 0"



section \<open>Library primitives\<close>

text \<open>
  What the source takes from Go's standard library is a parameter of the model:
  SHA-256, the gob encoding of a transaction, and ECDSA over P-256. \<open>ecdsa_Sign\<close> gets
  the number of the call as its first argument, since \<^verbatim>\<open>ecdsa.Sign\<close> draws fresh
  randomness each time; it returns the error text or the pair \<open>(r, s)\<close>. A public key
  is the pair of its coordinates. \<^verbatim>\<open>sha256.Sum256\<close> returns 32 bytes; no theorem below
  depends on the length.
\<close>

record PrivateKey =
  KeyD :: nat
  KeyX :: nat
  KeyY :: nat

record lib =
  sha256 :: "bytes \<Rightarrow> bytes"
  gob :: "Transaction \<Rightarrow> bytes"
  ecdsa_Sign :: "nat \<Rightarrow> PrivateKey \<Rightarrow> bytes \<Rightarrow> string + nat \<times> nat"
  ecdsa_Verify :: "nat \<times> nat \<Rightarrow> bytes \<Rightarrow> nat \<Rightarrow> nat \<Rightarrow> bool"

text \<open>\<^verbatim>\<open>big.Int.Bytes\<close> (big-endian, no leading zero byte) and \<^verbatim>\<open>big.Int.SetBytes\<close>.\<close>

fun Bytes :: "nat \<Rightarrow> bytes" where
  "Bytes n = (if n = 0 then [] else Bytes (n div 256) @ [of_nat (n mod 256)])"

definition SetBytes :: "bytes \<Rightarrow> nat" where
  "SetBytes bs = foldl (\<lambda>acc b. acc * 256 + unat b) 0 bs"

text \<open>\<^verbatim>\<open>IntToHex\<close> (pow.go): the eight bytes of an int64, big-endian, two's complement.\<close>

definition IntToHex :: "int \<Rightarrow> bytes" where
  "IntToHex n = map (\<lambda>k. of_int (n div 2 ^ k)) [56, 48, 40, 32, 24, 16, 8, 0]"

section \<open>Transactions (transaction.go)\<close>

definition SetID :: "lib \<Rightarrow> Transaction \<Rightarrow> Transaction" where
  "SetID L tx = tx\<lparr>ID := sha256 L (gob L tx)\<rparr>"

definition Serialize :: "lib \<Rightarrow> Transaction \<Rightarrow> bytes" where
  "Serialize L tx = gob L tx"

definition Hash_tx :: "lib \<Rightarrow> Transaction \<Rightarrow> bytes" where
  "Hash_tx L tx = sha256 L (Serialize L (tx\<lparr>ID := []\<rparr>))"

definition NewCoinbaseTx :: "lib \<Rightarrow> string \<Rightarrow> string \<Rightarrow> Transaction" where
  "NewCoinbaseTx L to data0 =
     (let data = (if data0 = [] then ''Reward to '' @ to else data0);
          txin = \<lparr>Txid = [], VoutIdx = - 1, Signature = [], PubKey = bytes_of_string data\<rparr>;
          pubKeyHash =
            (if to \<noteq> []
             then (case DecodeString to of
                     (decoded, ok) \<Rightarrow> if ok then decoded else bytes_of_string to)
             else []);
          txout = \<lparr>Value = 15000, PubKeyHash = pubKeyHash\<rparr>
      in SetID L \<lparr>ID = [], Vin = [txin], Vout = [txout]\<rparr>)"

definition TrimmedCopy :: "Transaction \<Rightarrow> Transaction" where
  "TrimmedCopy tx =
     \<lparr>ID = ID tx,
      Vin = map (\<lambda>vin. \<lparr>Txid = Txid vin, VoutIdx = VoutIdx vin, Signature = [], PubKey = []\<rparr>)
              (Vin tx),
      Vout = map (\<lambda>vout. \<lparr>Value = Value vout, PubKeyHash = PubKeyHash vout\<rparr>) (Vout tx)\<rparr>"

text \<open>
  The three statements Sign and Verify share: put the referenced output's owner into the
  copy's input \<open>inIdx\<close>, hash the copy, blank the slot again. The copy keeps the hash as
  its ID.
\<close>

definition set_PubKey :: "nat \<Rightarrow> bytes \<Rightarrow> Transaction \<Rightarrow> Transaction" where
  "set_PubKey inIdx k tx = tx\<lparr>Vin := (Vin tx)[inIdx := (Vin tx ! inIdx)\<lparr>PubKey := k\<rparr>]\<rparr>"

definition hash_input :: "lib \<Rightarrow> nat \<Rightarrow> bytes \<Rightarrow> Transaction \<Rightarrow> Transaction" where
  "hash_input L inIdx pubKeyHash txCopy =
     (let txCopy1 = set_PubKey inIdx pubKeyHash txCopy;
          txCopy2 = txCopy1\<lparr>ID := Hash_tx L txCopy1\<rparr>
      in set_PubKey inIdx [] txCopy2)"

definition in_range :: "int \<Rightarrow> 'a list \<Rightarrow> bool" where
  "in_range i xs \<longleftrightarrow> 0 \<le> i \<and> i < int (length xs)"

text \<open>
  Sign: the loop over the inputs, on the pair (txCopy, tx). The result is the error (or
  \<open>None\<close> for nil) with the transaction as the call leaves it; an output index out of
  range panics.
\<close>

fun sign_inputs ::
  "lib \<Rightarrow> PrivateKey \<Rightarrow> (string \<rightharpoonup> Transaction) \<Rightarrow> (nat \<times> TxInput) list \<Rightarrow>
   Transaction \<Rightarrow> Transaction \<Rightarrow> (string option \<times> Transaction) outcome" where
  "sign_inputs L privKey prevTXs [] txCopy tx = Done (None, tx)"
| "sign_inputs L privKey prevTXs ((inIdx, vin) # rest) txCopy tx =
     (case prevTXs (EncodeToString (Txid vin)) of
        None \<Rightarrow> Done (Some ''previous transaction not found'', tx)
      | Some prevTx \<Rightarrow>
          if \<not> in_range (VoutIdx vin) (Vout prevTx) then Panic
          else
            (let txCopy' =
                   hash_input L inIdx (PubKeyHash (Vout prevTx ! nat (VoutIdx vin))) txCopy
             in case ecdsa_Sign L inIdx privKey (ID txCopy') of
                  Inl err \<Rightarrow> Done (Some err, tx)
                | Inr (r, s) \<Rightarrow>
                    sign_inputs L privKey prevTXs rest txCopy'
                      (tx\<lparr>Vin := (Vin tx)[inIdx := (Vin tx ! inIdx)
                          \<lparr>Signature := Bytes r @ Bytes s,
                           PubKey := Bytes (KeyX privKey) @ Bytes (KeyY privKey)\<rparr>]\<rparr>)))"

definition Sign ::
  "lib \<Rightarrow> Transaction \<Rightarrow> PrivateKey \<Rightarrow> (string \<rightharpoonup> Transaction) \<Rightarrow>
   (string option \<times> Transaction) outcome" where
  "Sign L tx privKey prevTXs =
     (if IsCoinbase tx then Done (None, tx)
      else sign_inputs L privKey prevTXs (enumerate 0 (Vin tx)) (TrimmedCopy tx) tx)"

text \<open>
  Verify: a missing key of \<open>prevTXs\<close> reads as the zero transaction, whose output list
  is empty, so the index panics.
\<close>

fun verify_inputs ::
  "lib \<Rightarrow> (string \<rightharpoonup> Transaction) \<Rightarrow> (nat \<times> TxInput) list \<Rightarrow> Transaction \<Rightarrow> bool outcome" where
  "verify_inputs L prevTXs [] txCopy = Done True"
| "verify_inputs L prevTXs ((inIdx, vin) # rest) txCopy =
     (let prevTx = (case prevTXs (EncodeToString (Txid vin)) of
                      None \<Rightarrow> \<lparr>ID = [], Vin = [], Vout = []\<rparr>
                    | Some t \<Rightarrow> t)
      in if \<not> in_range (VoutIdx vin) (Vout prevTx) then Panic
         else
           (let txCopy' =
                  hash_input L inIdx (PubKeyHash (Vout prevTx ! nat (VoutIdx vin))) txCopy;
                sigLen = length (Signature vin);
                r = SetBytes (take (sigLen div 2) (Signature vin));
                s = SetBytes (drop (sigLen div 2) (Signature vin));
                keyLen = length (PubKey vin)
            in if keyLen = 0 then Done False
               else
                 (let x = SetBytes (take (keyLen div 2) (PubKey vin));
                      y = SetBytes (drop (keyLen div 2) (PubKey vin))
                  in if \<not> ecdsa_Verify L (x, y) (ID txCopy') r s then Done False
                     else verify_inputs L prevTXs rest txCopy')))"

definition Verify :: "lib \<Rightarrow> Transaction \<Rightarrow> (string \<rightharpoonup> Transaction) \<Rightarrow> bool outcome" where
  "Verify L tx prevTXs =
     (if IsCoinbase tx then Done True
      else verify_inputs L prevTXs (enumerate 0 (Vin tx)) (TrimmedCopy tx))"

text \<open>
  What Verify asks of one input, without the loop: \<open>signing_digest\<close> is the hash that
  Sign and Verify compute for input \<open>inIdx\<close>, and \<open>input_accepted\<close> says that the
  stored public key is not empty and that \<^verbatim>\<open>ecdsa.Verify\<close> accepts the two parts of the
  stored key and of the stored signature, each cut at half its length, for that hash.
\<close>

definition signing_digest :: "lib \<Rightarrow> Transaction \<Rightarrow> nat \<Rightarrow> bytes \<Rightarrow> bytes" where
  "signing_digest L tx inIdx pubKeyHash = Hash_tx L (set_PubKey inIdx pubKeyHash (TrimmedCopy tx))"

definition input_accepted ::
  "lib \<Rightarrow> (string \<rightharpoonup> Transaction) \<Rightarrow> Transaction \<Rightarrow> nat \<times> TxInput \<Rightarrow> bool" where
  "input_accepted L prevTXs tx p =
     (case p of (inIdx, vin) \<Rightarrow>
        (case prevTXs (EncodeToString (Txid vin)) of
           None \<Rightarrow> False
         | Some prevTx \<Rightarrow>
             PubKey vin \<noteq> [] \<and>
             ecdsa_Verify L
               (SetBytes (take (length (PubKey vin) div 2) (PubKey vin)),
                SetBytes (drop (length (PubKey vin) div 2) (PubKey vin)))
               (signing_digest L tx inIdx (PubKeyHash (Vout prevTx ! nat (VoutIdx vin))))
               (SetBytes (take (length (Signature vin) div 2) (Signature vin)))
               (SetBytes (drop (length (Signature vin) div 2) (Signature vin)))))"

section \<open>Proof of work (pow.go) and blocks (block.go)\<close>

definition targetBits :: nat where
  "targetBits = 20"

record ProofOfWork =
  pow_block :: Block
  pow_target :: nat

definition NewProofOfWork :: "Block \<Rightarrow> ProofOfWork" where
  "NewProofOfWork b = \<lparr>pow_block = b, pow_target = push_bit (256 - targetBits) 1\<rparr>"

definition HashTransactions :: "lib \<Rightarrow> Block \<Rightarrow> bytes" where
  "HashTransactions L b = sha256 L (concat (map ID (Transactions b)))"

definition prepareData :: "lib \<Rightarrow> ProofOfWork \<Rightarrow> int \<Rightarrow> bytes" where
  "prepareData L pow nonce =
     concat [PrevHash (pow_block pow),
             HashTransactions L (pow_block pow),
             IntToHex (Timestamp (pow_block pow)),
             IntToHex (int targetBits),
             IntToHex nonce]"

text \<open>
  The search of Run has no bound in the source: it is a partial function, and \<open>None\<close>
  is the search that never ends. \<^verbatim>\<open>nonce++\<close> wraps at 64 bits.
\<close>

partial_function (option) run_from :: "lib \<Rightarrow> ProofOfWork \<Rightarrow> int \<Rightarrow> (int \<times> bytes) option" where
  "run_from L pow nonce =
     (let hash = sha256 L (prepareData L pow nonce)
      in if SetBytes hash < pow_target pow then Some (nonce, hash)
         else run_from L pow (wrap64 (nonce + 1)))"

definition Run :: "lib \<Rightarrow> ProofOfWork \<Rightarrow> (int \<times> bytes) option" where
  "Run L pow = run_from L pow 0"

definition Validate :: "lib \<Rightarrow> ProofOfWork \<Rightarrow> bool" where
  "Validate L pow \<longleftrightarrow>
     SetBytes (sha256 L (prepareData L pow (Nonce (pow_block pow)))) < pow_target pow"

text \<open>\<open>now\<close> is what \<^verbatim>\<open>time.Now().Unix()\<close> returns in NewBlock.\<close>

definition NewBlock :: "lib \<Rightarrow> int \<Rightarrow> Transaction list \<Rightarrow> bytes \<Rightarrow> Block option" where
  "NewBlock L now transactions prevHash =
     (let block = \<lparr>Timestamp = now, Transactions = transactions, PrevHash = prevHash,
                   Hash = [], Nonce = 0\<rparr>
      in case Run L (NewProofOfWork block) of
           None \<Rightarrow> None
         | Some (nonce, hash) \<Rightarrow> Some (block\<lparr>Hash := hash, Nonce := nonce\<rparr>))"

text \<open>
  The test of Run and Validate on a nonce, \<^verbatim>\<open>hashInt.Cmp(pow.target) == -1\<close>, as a
  predicate for the statements below.
\<close>

definition meets_target :: "lib \<Rightarrow> ProofOfWork \<Rightarrow> int \<Rightarrow> bool" where
  "meets_target L pow nonce \<longleftrightarrow> SetBytes (sha256 L (prepareData L pow nonce)) < pow_target pow"

definition mined_block :: "int \<Rightarrow> Transaction list \<Rightarrow> bytes \<Rightarrow> Block" where
  "mined_block now transactions prevHash =
     \<lparr>Timestamp = now, Transactions = transactions, PrevHash = prevHash, Hash = [], Nonce = 0\<rparr>"

section \<open>The chain (blockchain.go)\<close>

definition NewBlockchain :: "lib \<Rightarrow> int \<Rightarrow> string \<Rightarrow> Blockchain option" where
  "NewBlockchain L now address =
     (case NewBlock L now [NewCoinbaseTx L address ''Genesis Block''] [] of
        None \<Rightarrow> None
      | Some genesis \<Rightarrow> Some \<lparr>Blocks = [genesis]\<rparr>)"

text \<open>
  AddBlock returns the chain with the new block appended, and the block. On a chain
  with no block the index \<^verbatim>\<open>len(bc.Blocks)-1\<close> panics.
\<close>

definition AddBlock ::
  "lib \<Rightarrow> int \<Rightarrow> Blockchain \<Rightarrow> Transaction list \<Rightarrow> (Blockchain \<times> Block) outcome option" where
  "AddBlock L now bc txs =
     (if Blocks bc = [] then Some Panic
      else case NewBlock L now txs (Hash (last (Blocks bc))) of
             None \<Rightarrow> None
           | Some newBlock \<Rightarrow> Some (Done (bc\<lparr>Blocks := Blocks bc @ [newBlock]\<rparr>, newBlock)))"

definition FindTransaction :: "Blockchain \<Rightarrow> bytes \<Rightarrow> Transaction option" where
  "FindTransaction bc txid =
     find (\<lambda>tx. EncodeToString (ID tx) = EncodeToString txid)
       (concat (map Transactions (Blocks bc)))"

fun lookup_prev ::
  "Blockchain \<Rightarrow> TxInput list \<Rightarrow> (string \<rightharpoonup> Transaction) \<Rightarrow> (string \<rightharpoonup> Transaction) option" where
  "lookup_prev bc [] prevTXs = Some prevTXs"
| "lookup_prev bc (vin # rest) prevTXs =
     (case FindTransaction bc (Txid vin) of
        None \<Rightarrow> None
      | Some prevTx \<Rightarrow> lookup_prev bc rest (prevTXs(EncodeToString (Txid vin) \<mapsto> prevTx)))"

definition SignTransaction ::
  "lib \<Rightarrow> Blockchain \<Rightarrow> Transaction \<Rightarrow> PrivateKey \<Rightarrow> (string option \<times> Transaction) outcome" where
  "SignTransaction L bc tx privKey =
     (case lookup_prev bc (Vin tx) Map.empty of
        None \<Rightarrow> Done (Some ''transaction not found'', tx)
      | Some prevTXs \<Rightarrow> Sign L tx privKey prevTXs)"

definition VerifyTransaction :: "lib \<Rightarrow> Blockchain \<Rightarrow> Transaction \<Rightarrow> bool outcome" where
  "VerifyTransaction L bc tx =
     (if IsCoinbase tx then Done True
      else case lookup_prev bc (Vin tx) Map.empty of
             None \<Rightarrow> Done False
           | Some prevTXs \<Rightarrow> Verify L tx prevTXs)"

section \<open>The request handlers (handlers.go)\<close>

text \<open>
  The server holds the chain and, when it is configured, the client of the row store.
  \<^verbatim>\<open>Server.UTXO\<close> points to the same chain as \<^verbatim>\<open>Server.BC\<close>, so it is not a field of its
  own. The row store is the list of the requests sent to it, in order; what it answers
  to a request (nil or an error text) is the parameter \<open>db_reply\<close>.
\<close>

record TransactionRecord =
  TxID :: string
  BlockHash :: string
  Sender :: string
  Receiver :: string
  RecAmount :: int
  RecTimestamp :: int
  RecType :: string
  RawJSON :: Transaction

datatype db_request =
    SaveBlockReq int Block
  | SaveTransactionReq TransactionRecord
  | LogSystemEventReq string string string string

record Server =
  srv_BC :: Blockchain
  srv_DB :: "db_request list option"

definition srv_UTXO :: "Server \<Rightarrow> UTXOSet" where
  "srv_UTXO s = \<lparr>BC = Some (srv_BC s)\<rparr>"

record txRequest =
  From :: string
  To :: string
  Amount :: int
  PrivKey :: string


record fundWalletResponse =
  RespAddress :: string
  RespAmount :: int
  RespBlockHash :: string

datatype response =
    HttpError string nat
  | StatusJSON string
  | FundJSON fundWalletResponse

text \<open>
  What the handlers take from outside the files at hand: the clock, the order in which
  the range over the map of FindUTXO visits it, the answers of the row store, and the
  two functions of package blockchain that SendTransaction calls and whose file is not
  among the sources, \<^verbatim>\<open>BigIntToPrivateKey\<close> (after \<^verbatim>\<open>GetDefaultCurve\<close>) and
  \<^verbatim>\<open>NewUTXOTransaction\<close>.
\<close>

record deps =
  now :: int
  save_time :: int
  range_order :: "string list"
  db_reply :: "db_request \<Rightarrow> string option"
  BigIntToPrivateKey :: "bytes \<Rightarrow> PrivateKey"
  NewUTXOTransaction ::
    "PrivateKey \<Rightarrow> string \<Rightarrow> int \<Rightarrow> Blockchain \<Rightarrow> spent_map \<Rightarrow> bytes \<Rightarrow> int \<Rightarrow> string + Transaction"

definition SaveTransaction ::
  "deps \<Rightarrow> string \<Rightarrow> Transaction \<Rightarrow> string \<Rightarrow> string \<Rightarrow> int \<Rightarrow> string \<Rightarrow> db_request" where
  "SaveTransaction E blockHash tx sender receiver amount txType =
     SaveTransactionReq
       \<lparr>TxID = EncodeToString (ID tx), BlockHash = blockHash, Sender = sender,
        Receiver = receiver, RecAmount = amount, RecTimestamp = save_time E,
        RecType = txType, RawJSON = tx\<rparr>"



text \<open>
  SendTransaction, on the decoded body (\<open>None\<close> when the JSON does not decode). The
  result is the response and the server afterwards; \<open>None\<close> is a mining search that
  never ends. The two requests to the row store are sent from a goroutine: the model
  records them in the order the goroutine sends them.
\<close>

definition SendTransaction ::
  "lib \<Rightarrow> deps \<Rightarrow> Server \<Rightarrow> txRequest option \<Rightarrow> (response \<times> Server) outcome option" where
  "SendTransaction L E s body =
     (case body of
        None \<Rightarrow> Some (Done (HttpError ''invalid request payload'' 400, s))
      | Some req \<Rightarrow>
          if \<not> ValidateAddress (From req) \<or> \<not> ValidateAddress (To req)
          then Some (Done (HttpError ''invalid address'' 400, s))
          else if Amount req \<le> 0
          then Some (Done (HttpError ''amount must be positive'' 400, s))
          else if \<not> snd (DecodeString (PrivKey req))
          then Some (Done (HttpError ''invalid private key'' 400, s))
          else
            (let priv = BigIntToPrivateKey E (fst (DecodeString (PrivKey req)));
                 fromPubKeyHash = fst (DecodeString (From req))
             in case FindSpendableOutputs (range_order E) (srv_UTXO s) (Some fromPubKeyHash)
                       (Amount req) of
                  Panic \<Rightarrow> Some Panic
                | Done (amount, spendable) \<Rightarrow>
                    if amount < Amount req
                    then Some (Done (HttpError ''insufficient funds'' 400, s))
                    else
                      (case NewUTXOTransaction E priv (To req) (Amount req) (srv_BC s)
                              spendable fromPubKeyHash amount of
                         Inl err \<Rightarrow> Some (Done (HttpError ''failed to create transaction'' 400, s))
                       | Inr tx \<Rightarrow>
                           (case VerifyTransaction L (srv_BC s) tx of
                              Panic \<Rightarrow> Some Panic
                            | Done valid \<Rightarrow>
                                if \<not> valid
                                then Some (Done (HttpError ''invalid transaction'' 400, s))
                                else
                                  (case AddBlock L (now E) (srv_BC s) [tx] of
                                     None \<Rightarrow> None
                                   | Some Panic \<Rightarrow> Some Panic
                                   | Some (Done (bc', newBlock)) \<Rightarrow>
                                       Some (Done (StatusJSON ''transaction mined'',
                                         \<lparr>srv_BC = bc',
                                          srv_DB = map_option
                                            (\<lambda>sent. sent @
                                               [SaveBlockReq (int (length (Blocks bc')) - 1) newBlock,
                                                SaveTransaction E (EncodeToString (Hash newBlock)) tx
                                                  (From req) (To req) (Amount req) ''send''])
                                            (srv_DB s)\<rparr>)))))))"



section \<open>Callers of the index\<close>

text \<open>
  The calls a holder of the chain and of a map of unspent outputs can make, as steps on
  the pair: appending a mined block (the assignment at the end of AddBlock), Reindex
  with the result stored in the map, and Update on the map.
\<close>

record index_state =
  st_chain :: Blockchain
  st_utxo :: utxo_map

datatype index_call = CallAppend Block | CallReindex | CallUpdate Block

fun do_call :: "index_call \<Rightarrow> index_state \<Rightarrow> index_state" where
  "do_call (CallAppend newBlock) st =
     st\<lparr>st_chain := (st_chain st)\<lparr>Blocks := Blocks (st_chain st) @ [newBlock]\<rparr>\<rparr>"
| "do_call CallReindex st = st\<lparr>st_utxo := Reindex \<lparr>BC = Some (st_chain st)\<rparr>\<rparr>"
| "do_call (CallUpdate block) st = st\<lparr>st_utxo := Update block (st_utxo st)\<rparr>"




section \<open>The specification's wording\<close>

text \<open>
  The unspent outputs of a transaction as the specification words them: the outputs
  that no input of a non-coinbase transaction of the chain refers to.
\<close>

definition spends :: "Transaction \<Rightarrow> bytes \<Rightarrow> nat \<Rightarrow> bool" where
  "spends tx txid outIdx \<longleftrightarrow>
     \<not> IsCoinbase tx \<and>
     list_ex (\<lambda>inp. EncodeToString (Txid inp) = EncodeToString txid \<and> VoutIdx inp = int outIdx)
       (Vin tx)"

definition referenced_in_chain :: "Blockchain \<Rightarrow> bytes \<Rightarrow> nat \<Rightarrow> bool" where
  "referenced_in_chain bc txid outIdx \<longleftrightarrow>
     list_ex (\<lambda>b. list_ex (\<lambda>tx. spends tx txid outIdx) (Transactions b)) (Blocks bc)"

definition spec_unspent_outputs :: "Blockchain \<Rightarrow> Transaction \<Rightarrow> TxOutput list" where
  "spec_unspent_outputs bc tx =
     map snd (filter (\<lambda>p. \<not> referenced_in_chain bc (ID tx) (fst p)) (enumerate 0 (Vout tx)))"

text \<open>
  A well-formed address as the specification words it: not empty, and of the length
  and encoding of a hex-encoded public-key hash, which GetAddress makes of the 32 bytes
  of a SHA-256 digest.
\<close>

definition spec_well_formed_address :: "string \<Rightarrow> bool" where
  "spec_well_formed_address address \<longleftrightarrow>
     address \<noteq> [] \<and> length address = 64 \<and> list_all (\<lambda>c. fromHexChar c \<noteq> None) address"

section \<open>A chain of two blocks\<close>

text \<open>
  A genesis block whose coinbase pays 15000 to one owner, and a second block whose
  only transaction spends that output and pays another owner.
\<close>

definition owner_A :: bytes where
  "owner_A = [0x0a]"

definition owner_B :: bytes where
  "owner_B = [0x0b]"

definition genesis_tx :: Transaction where
  "genesis_tx =
     \<lparr>ID = [0xaa],
      Vin = [\<lparr>Txid = [], VoutIdx = - 1, Signature = [], PubKey = bytes_of_string ''Genesis Block''\<rparr>],
      Vout = [\<lparr>Value = 15000, PubKeyHash = owner_A\<rparr>]\<rparr>"

definition spend_tx :: Transaction where
  "spend_tx =
     \<lparr>ID = [0xbb],
      Vin = [\<lparr>Txid = [0xaa], VoutIdx = 0, Signature = [1, 2], PubKey = [3, 4]\<rparr>],
      Vout = [\<lparr>Value = 15000, PubKeyHash = owner_B\<rparr>]\<rparr>"

definition genesis_block :: Block where
  "genesis_block =
     \<lparr>Timestamp = 1, Transactions = [genesis_tx], PrevHash = [], Hash = [0x01], Nonce = 0\<rparr>"

definition spend_block :: Block where
  "spend_block =
     \<lparr>Timestamp = 2, Transactions = [spend_tx], PrevHash = [0x01], Hash = [0x02], Nonce = 0\<rparr>"

definition spent_chain :: Blockchain where
  "spent_chain = \<lparr>Blocks = [genesis_block, spend_block]\<rparr>"

text \<open>
  The holder of the index before the second block: the chain is the genesis block, and
  the map is what Reindex returns for it.
\<close>

definition start_state :: index_state where
  "start_state =
     \<lparr>st_chain = \<lparr>Blocks = [genesis_block]\<rparr>,
      st_utxo = Reindex \<lparr>BC = Some \<lparr>Blocks = [genesis_block]\<rparr>\<rparr>\<rparr>"






section \<open>The curve P-256 and a library instance for closed examples\<close>

text \<open>
  \<^verbatim>\<open>elliptic.P256()\<close> is the curve \<open>y\<^sup>2 = x\<^sup>3 - 3 x + b\<close> over the field of \<open>p256_p\<close>
  elements. \<^verbatim>\<open>ecdsa.Verify\<close> returns false for a public key that is not a point of the
  curve.
\<close>

definition p256_p :: nat where
  "p256_p = 115792089210356248762697446949407573530086143415290314195533631308867097853951"

definition p256_b :: nat where
  "p256_b = 41058363725152142129326129780047268409114441015993725554835256314039467401291"

definition on_P256 :: "nat \<times> nat \<Rightarrow> bool" where
  "on_P256 pk =
     (case pk of (x, y) \<Rightarrow>
        x < p256_p \<and> y < p256_p \<and>
        (y * y) mod p256_p = (x * x * x + (p256_p - 3) * x + p256_b) mod p256_p)"

text \<open>
  The closed examples below need some value for each library parameter. \<open>demo_lib\<close>
  is such an instance and no model of the real functions: its hash is a checksum, and
  its signature of a hash is a function of the hash and of the public key, which its
  verification recomputes after checking that the key is a point of P-256. It has the
  two properties of the real library that the examples rest on: a signature made with a
  key verifies under that key's public point, and nothing verifies under a pair that is
  not on the curve.
\<close>

definition demo_sha256 :: "bytes \<Rightarrow> bytes" where
  "demo_sha256 data = replicate 32 (of_nat (sum_list (map unat data) mod 4))"

definition demo_gob :: "Transaction \<Rightarrow> bytes" where
  "demo_gob tx =
     ID tx
     @ concat (map (\<lambda>vin. Txid vin @ IntToHex (VoutIdx vin) @ Signature vin @ PubKey vin) (Vin tx))
     @ concat (map (\<lambda>out. IntToHex (Value out) @ PubKeyHash out) (Vout tx))"

definition demo_r :: "nat \<Rightarrow> bytes \<Rightarrow> nat" where
  "demo_r x h = 256 + (x + sum_list (map unat h)) mod 256"

definition demo_Sign :: "nat \<Rightarrow> PrivateKey \<Rightarrow> bytes \<Rightarrow> string + nat \<times> nat" where
  "demo_Sign i privKey h = Inr (demo_r (KeyX privKey) h, demo_r (KeyY privKey) h)"

definition demo_Verify :: "nat \<times> nat \<Rightarrow> bytes \<Rightarrow> nat \<Rightarrow> nat \<Rightarrow> bool" where
  "demo_Verify pk h r s \<longleftrightarrow> on_P256 pk \<and> r = demo_r (fst pk) h \<and> s = demo_r (snd pk) h"

definition demo_lib :: lib where
  "demo_lib = \<lparr>sha256 = demo_sha256, gob = demo_gob, ecdsa_Sign = demo_Sign,
               ecdsa_Verify = demo_Verify\<rparr>"

text \<open>
  Two keys of P-256. The public point of the private key 43 has an \<open>x\<close> of 32 bytes
  and a \<open>y\<close> of 31 bytes; that of the private key 379 has an \<open>x\<close> of 31 bytes and a
  \<open>y\<close> of 32 bytes.
\<close>

definition key43 :: PrivateKey where
  "key43 =
     \<lparr>KeyD = 43,
      KeyX = 68940400736695912148960890999721852106142292820061709409680925607912859161229,
      KeyY = 107423973961867739917642914452788810230878776317276661678353934116262542999\<rparr>"

definition key379 :: PrivateKey where
  "key379 =
     \<lparr>KeyD = 379,
      KeyX = 150648118917499357041517299508400176508249743050667881623588564208998400010,
      KeyY = 84717705411573186131289082852425264859825270454499335430265137682489917325202\<rparr>"

text \<open>
  A transfer with one input, which refers to output 0 of a coinbase transaction whose
  output belongs to \<open>owner\<close>, and the map of referenced transactions for it.
\<close>

definition funding_tx :: "bytes \<Rightarrow> Transaction" where
  "funding_tx owner =
     \<lparr>ID = [0xaa],
      Vin = [\<lparr>Txid = [], VoutIdx = - 1, Signature = [], PubKey = bytes_of_string ''Genesis Block''\<rparr>],
      Vout = [\<lparr>Value = 15000, PubKeyHash = owner\<rparr>]\<rparr>"

definition transfer_prevTXs :: "bytes \<Rightarrow> (string \<rightharpoonup> Transaction)" where
  "transfer_prevTXs owner = [EncodeToString [0xaa] \<mapsto> funding_tx owner]"

definition transfer_tx :: Transaction where
  "transfer_tx =
     \<lparr>ID = [0xbb],
      Vin = [\<lparr>Txid = [0xaa], VoutIdx = 0, Signature = [], PubKey = []\<rparr>],
      Vout = [\<lparr>Value = 15000, PubKeyHash = owner_B\<rparr>]\<rparr>"

text \<open>
  The transfer as Sign leaves it with \<open>demo_lib\<close> and each of the two keys.
\<close>

definition signed43 :: Transaction where
  "signed43 =
     transfer_tx\<lparr>Vin :=
       [\<lparr>Txid = [0xaa], VoutIdx = 0, Signature = [1, 173, 1, 183],
         PubKey = Bytes (KeyX key43) @ Bytes (KeyY key43)\<rparr>]\<rparr>"

definition signed379 :: Transaction where
  "signed379 =
     transfer_tx\<lparr>Vin :=
       [\<lparr>Txid = [0xaa], VoutIdx = 0, Signature = [1, 42, 1, 178],
         PubKey = Bytes (KeyX key379) @ Bytes (KeyY key379)\<rparr>]\<rparr>"

text \<open>
  A server on the chain of two blocks with a row store that has received nothing, and
  values for what the handlers take from outside: the range visits the key of the
  genesis transaction, the row store answers nil, and the two functions whose file is not among the sources are
  stand-ins that no example reaches past.
\<close>

definition demo_deps :: deps where
  "demo_deps =
     \<lparr>now = 1, save_time = 2, range_order = [EncodeToString (ID genesis_tx)],
      db_reply = (\<lambda>request. None),
      BigIntToPrivateKey = (\<lambda>d. \<lparr>KeyD = SetBytes d, KeyX = 0, KeyY = 0\<rparr>),
      NewUTXOTransaction = (\<lambda>priv to amount bc spendable pubKeyHash acc. Inl ''unavailable'')\<rparr>"

definition demo_server :: Server where
  "demo_server = \<lparr>srv_BC = spent_chain, srv_DB = Some []\<rparr>"

section \<open>Properties of the ledger\<close>

subsection \<open>Evaluation of the examples\<close>

lemmas chain_defs =
  spent_chain_def genesis_block_def spend_block_def genesis_tx_def spend_tx_def
  owner_A_def owner_B_def

lemmas hex_defs = EncodeToString_def hex_byte_def hexdigit_def

lemmas scan_defs =
  FindUTXO_def scan_tx_def record_spent_def IsCoinbase_def is_spent_def owner_matches_def
  append_at_def

subsection \<open>The scan of the chain\<close>

text \<open>
  C1. FindUTXO with a nil filter should map a transaction's id to exactly its outputs
  that no input of a non-coinbase transaction of the chain refers to. On the chain of
  two blocks the second block spends output 0 of the genesis transaction, so the
  specification's list for that transaction is empty; the scan, which meets the
  spending input only after it has collected the output, still returns the output.
\<close>

theorem FindUTXO_keeps_spent_output:
  "FindUTXO spent_chain None (EncodeToString (ID genesis_tx)) =
     Some [\<lparr>Value = 15000, PubKeyHash = owner_A\<rparr>]
   \<and> referenced_in_chain spent_chain (ID genesis_tx) 0
   \<and> spec_unspent_outputs spent_chain genesis_tx = []"
  by (simp add: chain_defs hex_defs scan_defs spec_unspent_outputs_def
      referenced_in_chain_def spends_def)

text \<open>
  C2. After a block that spends output 0 of a transaction has been appended and the
  index updated, FindSpendableOutputs for the owner of that output should no longer
  select it. Start from the genesis block and append the second block, which spends
  output 0 of the genesis transaction, then call Update or Reindex. The map that Update
  leaves has no entry for the genesis transaction any more. FindSpendableOutputs does
  not read that map: it scans the chain, the map of the owner's outputs has the genesis
  transaction as its only key, and the selection for an amount of 1 is output 0 of the
  genesis transaction.
\<close>

theorem FindSpendableOutputs_selects_spent_output:
  "spends spend_tx (ID genesis_tx) 0
   \<and> st_chain (fold do_call [CallAppend spend_block, CallUpdate spend_block] start_state)
       = spent_chain
   \<and> st_utxo (fold do_call [CallAppend spend_block, CallUpdate spend_block] start_state)
         (EncodeToString (ID genesis_tx)) = None
   \<and> st_chain (fold do_call [CallAppend spend_block, CallReindex] start_state) = spent_chain
   \<and> dom (FindUTXO spent_chain (Some owner_A)) = {EncodeToString (ID genesis_tx)}
   \<and> FindSpendableOutputs [EncodeToString (ID genesis_tx)] \<lparr>BC = Some spent_chain\<rparr>
        (Some owner_A) 1
      = Done (15000, [EncodeToString (ID genesis_tx) \<mapsto> [0]])"
proof (intro conjI)
  show "spends spend_tx (ID genesis_tx) 0"
    by (simp add: chain_defs hex_defs scan_defs spends_def)
  show "st_chain (fold do_call [CallAppend spend_block, CallUpdate spend_block] start_state)
        = spent_chain"
    by (simp add: start_state_def spent_chain_def)
  show "st_utxo (fold do_call [CallAppend spend_block, CallUpdate spend_block] start_state)
          (EncodeToString (ID genesis_tx)) = None"
    by (simp add: start_state_def Reindex_def Update_def update_tx_def remove_spent_def
        chain_defs hex_defs scan_defs)
  show "st_chain (fold do_call [CallAppend spend_block, CallReindex] start_state) = spent_chain"
    by (simp add: start_state_def spent_chain_def)
  show "dom (FindUTXO spent_chain (Some owner_A)) = {EncodeToString (ID genesis_tx)}"
    by (auto simp add: chain_defs hex_defs scan_defs dom_def split: if_splits)
  show "FindSpendableOutputs [EncodeToString (ID genesis_tx)] \<lparr>BC = Some spent_chain\<rparr>
          (Some owner_A) 1
        = Done (15000, [EncodeToString (ID genesis_tx) \<mapsto> [0]])"
    by (simp add: chain_defs hex_defs scan_defs FindSpendableOutputs_def select_entry_def
        bytes_arg_def wrap64_def fun_eq_iff)
qed

subsection \<open>The reads scan the chain\<close>













subsection \<open>Addresses\<close>

text \<open>
  C10, as amended. ValidateAddress returns true exactly for the non-empty strings; it
  checks neither the length nor the encoding, and no checksum.
\<close>

theorem ValidateAddress_iff_nonempty:
  "ValidateAddress address \<longleftrightarrow> address \<noteq> []"
  by (simp add: ValidateAddress_def)

text \<open>
  C10 as stated fails: the two-character string \<open>zz\<close> is accepted, and it is neither
  of the length of a hex-encoded hash nor made of hex digits.
\<close>

theorem ValidateAddress_accepts_malformed:
  "ValidateAddress ''zz'' \<and> \<not> spec_well_formed_address ''zz''"
  by (simp add: ValidateAddress_def spec_well_formed_address_def)

subsection \<open>Signing and verifying\<close>

lemma mod_witness: "(n::nat) = q * p + r \<Longrightarrow> r < p \<Longrightarrow> n mod p = r"
  by simp

lemma key43_lhs:
  "(107423973961867739917642914452788810230878776317276661678353934116262542999::nat) * 107423973961867739917642914452788810230878776317276661678353934116262542999 mod p256_p =
   85035312457865145897450666874613645285694509451888155824339379187999504187324"
  by (rule mod_witness [where q = 99660609463534302537750029930906485465646132034274159593637689306170027])
    (simp_all add: p256_p_def)

lemma key43_rhs:
  "((68940400736695912148960890999721852106142292820061709409680925607912859161229::nat) * 68940400736695912148960890999721852106142292820061709409680925607912859161229 * 68940400736695912148960890999721852106142292820061709409680925607912859161229
    + (p256_p - 3) * 68940400736695912148960890999721852106142292820061709409680925607912859161229 + p256_b) mod p256_p =
   85035312457865145897450666874613645285694509451888155824339379187999504187324"
  by (rule mod_witness
      [where q = 2829713851990539867224802613813269512511608460541248438657233675869320371694098113106493838223153442454557836088156529702519503908753297255516350660738448])
    (simp_all add: p256_p_def p256_b_def)

lemma key43_on_P256:
  "on_P256 (68940400736695912148960890999721852106142292820061709409680925607912859161229,
            107423973961867739917642914452788810230878776317276661678353934116262542999) = True"
  unfolding on_P256_def prod.case key43_lhs key43_rhs by (simp add: p256_p_def)

lemma key379_lhs:
  "(84717705411573186131289082852425264859825270454499335430265137682489917325202::nat) * 84717705411573186131289082852425264859825270454499335430265137682489917325202 mod p256_p =
   91653075771297063823855253321838847526649539274117762965320234145757377333232"
  by (rule mod_witness [where q = 61982555623153830629499122834353442539307110507291944023194548248928630528172])
    (simp_all add: p256_p_def)

lemma key379_rhs:
  "((150648118917499357041517299508400176508249743050667881623588564208998400010::nat) * 150648118917499357041517299508400176508249743050667881623588564208998400010 * 150648118917499357041517299508400176508249743050667881623588564208998400010
    + (p256_p - 3) * 150648118917499357041517299508400176508249743050667881623588564208998400010 + p256_b) mod p256_p =
   91653075771297063823855253321838847526649539274117762965320234145757377333232"
  by (rule mod_witness
      [where q = 29526519027796357956056806786034048885271264409525471034193948216310469878253529998704507951425764999714439242865247019440951296597303919705301989])
    (simp_all add: p256_p_def p256_b_def)

lemma key379_on_P256:
  "on_P256 (150648118917499357041517299508400176508249743050667881623588564208998400010,
            84717705411573186131289082852425264859825270454499335430265137682489917325202) = True"
  unfolding on_P256_def prod.case key379_lhs key379_rhs by (simp add: p256_p_def)

lemma split43_lhs:
  "(63883535624202428500556349501269175557539737517939618574035851375974665977495::nat) * 63883535624202428500556349501269175557539737517939618574035851375974665977495 mod p256_p =
   106616817900942281203046710466818739881616616036795563023745246381657511379312"
  by (rule mod_witness [where q = 35245120384992013181942430917602712775082351558637440025064853502950539936863])
    (simp_all add: p256_p_def)

lemma split43_rhs:
  "((269298440377718406831878480467663484789618331328366052381566115655909606098::nat) * 269298440377718406831878480467663484789618331328366052381566115655909606098 * 269298440377718406831878480467663484789618331328366052381566115655909606098
    + (p256_p - 3) * 269298440377718406831878480467663484789618331328366052381566115655909606098 + p256_b) mod p256_p =
   11905994894312988660006579541853670892764813101954180352925900728563686498366"
  by (rule mod_witness
      [where q = 168664088963898412419843829501466125995612648757770564476086716405708812248393589394322583702824151711628792446728805683959041090914656106245235571])
    (simp_all add: p256_p_def p256_b_def)

lemma split43_on_P256:
  "on_P256 (269298440377718406831878480467663484789618331328366052381566115655909606098,
            63883535624202428500556349501269175557539737517939618574035851375974665977495) = False"
  unfolding on_P256_def prod.case split43_lhs split43_rhs by (simp add: p256_p_def)


lemma Bytes_rec: "n \<noteq> 0 \<Longrightarrow> Bytes n = Bytes (n div 256) @ [of_nat (n mod 256)]"
  by simp

lemma Bytes_0: "Bytes 0 = []"
  by simp

declare Bytes.simps [simp del]

lemma key43_bytes:
  "Bytes (KeyX key43) @ Bytes (KeyY key43) =
   [152, 106, 226, 80, 111, 31, 241, 4, 208, 66, 48, 134, 29, 143, 75, 73, 143, 75, 196, 198, 208, 9, 179, 15, 117, 68, 220, 18, 155, 130, 210, 141, 60, 204, 192, 166, 70, 14, 10, 227, 40, 164, 217, 125, 60, 123, 97, 216, 111, 198, 40, 156, 24, 159, 37, 37, 17, 12, 68, 27, 176, 126, 151]"
  by (simp add: key43_def Bytes_rec Bytes_0)

lemma key379_bytes:
  "Bytes (KeyX key379) @ Bytes (KeyY key379) =
   [85, 67, 137, 74, 243, 208, 14, 215, 215, 64, 171, 219, 215, 92, 150, 176, 104, 119, 183, 135, 219, 95, 112, 238, 167, 139, 144, 168, 215, 192, 10, 187, 76, 133, 163, 216, 234, 41, 239, 170, 250, 36, 64, 105, 18, 221, 132, 213, 177, 77, 195, 43, 246, 86, 239, 108, 107, 213, 138, 93, 148, 63, 146]"
  by (simp add: key379_def Bytes_rec Bytes_0)

lemma key43_split:
  "SetBytes (take 31 (Bytes (KeyX key43) @ Bytes (KeyY key43))) =
     269298440377718406831878480467663484789618331328366052381566115655909606098
   \<and> SetBytes (drop 31 (Bytes (KeyX key43) @ Bytes (KeyY key43))) =
     63883535624202428500556349501269175557539737517939618574035851375974665977495"
  unfolding key43_bytes by (simp add: SetBytes_def)

lemma key379_split:
  "SetBytes (take 31 (Bytes (KeyX key379) @ Bytes (KeyY key379))) = KeyX key379
   \<and> SetBytes (drop 31 (Bytes (KeyX key379) @ Bytes (KeyY key379))) = KeyY key379"
  unfolding key379_bytes by (simp add: SetBytes_def key379_def)

lemma Verify_first_key_off_curve:
  assumes curve: "\<forall>pk h r s. ecdsa_Verify L pk h r s \<longrightarrow> on_P256 pk"
    and vin: "Vin tx = vin # rest" "Txid vin \<noteq> []"
    and prev: "prevTXs (EncodeToString (Txid vin)) = Some prevTx"
      "in_range (VoutIdx vin) (Vout prevTx)"
    and key: "PubKey vin \<noteq> []"
      "\<not> on_P256 (SetBytes (take (length (PubKey vin) div 2) (PubKey vin)),
                  SetBytes (drop (length (PubKey vin) div 2) (PubKey vin)))"
  shows "Verify L tx prevTXs = Done False"
proof -
  have "\<not> ecdsa_Verify L
          (SetBytes (take (length (PubKey vin) div 2) (PubKey vin)),
           SetBytes (drop (length (PubKey vin) div 2) (PubKey vin))) h r s" for h r s
    using curve key(2) by blast
  then show ?thesis
    using vin prev key(1) by (simp add: Verify_def IsCoinbase_def Let_def)
qed


text \<open>
  C3. A transaction signed by Sign with a key should verify against the same referenced
  transactions. Sign stores the public key as \<^verbatim>\<open>X.Bytes()\<close> followed by \<^verbatim>\<open>Y.Bytes()\<close>, each
  without leading zero bytes, and Verify cuts the stored bytes at half their length.
  For the P-256 key with private scalar 43 the stored key has 32 + 31 bytes, the cut
  falls after byte 31, and the pair that reaches \<^verbatim>\<open>ecdsa.Verify\<close> is not a point of the
  curve. So for every library whose \<^verbatim>\<open>ecdsa.Verify\<close> rejects pairs that are not on the
  curve, and every owner of the spent output: when Sign returns without error, Verify
  returns false.
\<close>

theorem Sign_then_Verify_fails_key43:
  assumes curve: "\<forall>pk h r s. ecdsa_Verify L pk h r s \<longrightarrow> on_P256 pk"
    and signed: "Sign L transfer_tx key43 (transfer_prevTXs owner) = Done (None, tx')"
  shows "Verify L tx' (transfer_prevTXs owner) = Done False"
proof -
  define k where "k = Bytes (KeyX key43) @ Bytes (KeyY key43)"
  from signed obtain sg where tx': "tx' = transfer_tx\<lparr>Vin :=
      [\<lparr>Txid = [0xaa], VoutIdx = 0, Signature = sg, PubKey = k\<rparr>]\<rparr>"
    by (auto simp add: Sign_def IsCoinbase_def transfer_tx_def transfer_prevTXs_def
        funding_tx_def in_range_def Let_def hex_defs k_def split: sum.splits)
  define vin where "vin = \<lparr>Txid = [0xaa], VoutIdx = 0, Signature = sg, PubKey = k\<rparr>"
  have len: "length k = 63"
    unfolding k_def key43_bytes by simp
  have halves:
    "SetBytes (take 31 k) =
       269298440377718406831878480467663484789618331328366052381566115655909606098"
    "SetBytes (drop 31 k) =
       63883535624202428500556349501269175557539737517939618574035851375974665977495"
    unfolding k_def using key43_split by simp_all
  show ?thesis
  proof (rule Verify_first_key_off_curve [OF curve])
    show "Vin tx' = vin # []"
      by (simp add: tx' vin_def)
    show "Txid vin \<noteq> []"
      by (simp add: vin_def)
    show "transfer_prevTXs owner (EncodeToString (Txid vin)) = Some (funding_tx owner)"
      by (simp add: transfer_prevTXs_def vin_def)
    show "in_range (VoutIdx vin) (Vout (funding_tx owner))"
      by (simp add: in_range_def funding_tx_def vin_def)
    show "PubKey vin \<noteq> []"
      using len by (auto simp add: vin_def)
    show "\<not> on_P256 (SetBytes (take (length (PubKey vin) div 2) (PubKey vin)),
                     SetBytes (drop (length (PubKey vin) div 2) (PubKey vin)))"
      by (simp add: vin_def len halves split43_on_P256)
  qed
qed

lemma demo_curve: "\<forall>pk h r s. ecdsa_Verify demo_lib pk h r s \<longrightarrow> on_P256 pk"
  by (simp add: demo_lib_def demo_Verify_def)

lemma demo_Hash_tx:
  "sum_list (map unat (demo_gob (tx\<lparr>ID := []\<rparr>))) mod 4 = 1 \<Longrightarrow>
   Hash_tx demo_lib tx = replicate 32 1"
  by (simp add: Hash_tx_def Serialize_def demo_lib_def demo_sha256_def)

lemma demo_r_ones:
  "demo_r x (replicate 32 1) = 256 + (x + 32) mod 256"
  unfolding demo_r_def by (simp add: sum_list_replicate add.commute)

lemma Sign_demo_key43:
  "Sign demo_lib transfer_tx key43 (transfer_prevTXs owner_A) = Done (None, signed43)"
  apply (simp add: Sign_def IsCoinbase_def transfer_tx_def transfer_prevTXs_def TrimmedCopy_def
      funding_tx_def in_range_def hex_defs owner_A_def owner_B_def)
  apply (simp add: hash_input_def set_PubKey_def demo_Hash_tx demo_gob_def IntToHex_def)
  apply (simp add: demo_lib_def demo_Sign_def demo_r_ones signed43_def transfer_tx_def owner_B_def)
  apply (simp add: key43_def Bytes_rec Bytes_0)
  done

lemma Sign_demo_key379:
  "Sign demo_lib transfer_tx key379 (transfer_prevTXs owner_A) = Done (None, signed379)"
  apply (simp add: Sign_def IsCoinbase_def transfer_tx_def transfer_prevTXs_def TrimmedCopy_def
      funding_tx_def in_range_def hex_defs owner_A_def owner_B_def)
  apply (simp add: hash_input_def set_PubKey_def demo_Hash_tx demo_gob_def IntToHex_def)
  apply (simp add: demo_lib_def demo_Sign_def demo_r_ones signed379_def transfer_tx_def owner_B_def)
  apply (simp add: key379_def Bytes_rec Bytes_0)
  done

text \<open>
  The theorem at \<open>demo_lib\<close> and the owner \<open>owner_A\<close>: Sign succeeds and Verify
  returns false.
\<close>

theorem Sign_then_Verify_fails_key43_witness:
  "Sign demo_lib transfer_tx key43 (transfer_prevTXs owner_A) = Done (None, signed43)
   \<and> Verify demo_lib signed43 (transfer_prevTXs owner_A) = Done False"
  using Sign_then_Verify_fails_key43 [OF demo_curve Sign_demo_key43] Sign_demo_key43 by simp

text \<open>
  C7 as stated fails: a public key whose length is odd need not make Verify return
  false. Signing with the P-256 key with private scalar 379 stores a key of 31 + 32
  bytes; the cut at byte 31 gives back the two coordinates, and Verify returns true.
\<close>

theorem Verify_accepts_key_of_odd_length:
  "Sign demo_lib transfer_tx key379 (transfer_prevTXs owner_A) = Done (None, signed379)
   \<and> \<not> IsCoinbase signed379
   \<and> length (PubKey (hd (Vin signed379))) = 63
   \<and> Verify demo_lib signed379 (transfer_prevTXs owner_A) = Done True"
proof -
  define k where "k = Bytes (KeyX key379) @ Bytes (KeyY key379)"
  have len: "length k = 63"
    unfolding k_def key379_bytes by simp
  have halves: "SetBytes (take 31 k) = KeyX key379" "SetBytes (drop 31 k) = KeyY key379"
    unfolding k_def using key379_split by simp_all
  have on: "on_P256 (KeyX key379, KeyY key379)"
    by (simp add: key379_def key379_on_P256)
  have s379: "signed379 = transfer_tx\<lparr>Vin :=
       [\<lparr>Txid = [0xaa], VoutIdx = 0, Signature = [1, 42, 1, 178], PubKey = k\<rparr>]\<rparr>"
    by (simp add: signed379_def k_def)
  have nc: "\<not> IsCoinbase signed379"
    by (simp add: s379 IsCoinbase_def)
  have l: "length (PubKey (hd (Vin signed379))) = 63"
    by (simp add: s379 len)
  have r: "demo_r (KeyX key379) (replicate 32 1) = 298"
    "demo_r (KeyY key379) (replicate 32 1) = 434"
    by (simp_all add: demo_r_ones key379_def)
  have v: "Verify demo_lib signed379 (transfer_prevTXs owner_A) = Done True"
    apply (simp add: Verify_def nc)
    apply (simp add: s379 transfer_tx_def transfer_prevTXs_def TrimmedCopy_def
      funding_tx_def in_range_def hex_defs owner_A_def owner_B_def len halves)
    apply (simp add: hash_input_def set_PubKey_def demo_Hash_tx demo_gob_def IntToHex_def)
    apply (simp add: demo_lib_def demo_Verify_def on r SetBytes_def)
    done
  show ?thesis
    using Sign_demo_key379 nc l v by simp
qed

lemma verify_inputs_total:
  assumes "\<forall>p \<in> set ins. \<exists>prevTx. prevTXs (EncodeToString (Txid (snd p))) = Some prevTx
             \<and> in_range (VoutIdx (snd p)) (Vout prevTx)"
  shows "\<exists>b. verify_inputs L prevTXs ins txCopy = Done b"
  using assms
proof (induction ins arbitrary: txCopy)
  case Nil
  show ?case by auto
next
  case (Cons p ins)
  obtain inIdx vin where p: "p = (inIdx, vin)"
    by (cases p)
  from Cons.prems obtain prevTx where
    prev: "prevTXs (EncodeToString (Txid vin)) = Some prevTx" "in_range (VoutIdx vin) (Vout prevTx)"
    by (auto simp add: p)
  from Cons.prems have rest:
    "\<forall>p \<in> set ins. \<exists>prevTx. prevTXs (EncodeToString (Txid (snd p))) = Some prevTx
       \<and> in_range (VoutIdx (snd p)) (Vout prevTx)"
    by simp
  show ?case
    using Cons.IH [OF rest] prev by (auto simp add: p Let_def)
qed

lemma verify_inputs_empty_key:
  assumes "\<forall>p \<in> set ins. \<exists>prevTx. prevTXs (EncodeToString (Txid (snd p))) = Some prevTx
             \<and> in_range (VoutIdx (snd p)) (Vout prevTx)"
    and "\<exists>p \<in> set ins. PubKey (snd p) = []"
  shows "verify_inputs L prevTXs ins txCopy = Done False"
  using assms
proof (induction ins arbitrary: txCopy)
  case Nil
  then show ?case by simp
next
  case (Cons p ins)
  obtain inIdx vin where p: "p = (inIdx, vin)"
    by (cases p)
  from Cons.prems(1) obtain prevTx where
    prev: "prevTXs (EncodeToString (Txid vin)) = Some prevTx" "in_range (VoutIdx vin) (Vout prevTx)"
    by (auto simp add: p)
  from Cons.prems(1) have rest:
    "\<forall>p \<in> set ins. \<exists>prevTx. prevTXs (EncodeToString (Txid (snd p))) = Some prevTx
       \<and> in_range (VoutIdx (snd p)) (Vout prevTx)"
    by simp
  show ?case
  proof (cases "PubKey vin = []")
    case True
    then show ?thesis
      using prev by (simp add: p Let_def)
  next
    case False
    with Cons.prems(2) have "\<exists>p \<in> set ins. PubKey (snd p) = []"
      by (simp add: p)
    from Cons.IH [OF rest this] show ?thesis
      using prev False by (simp add: p Let_def)
  qed
qed

lemma SetBytes_Nil: "SetBytes [] = 0"
  by (simp add: SetBytes_def)

lemma verify_inputs_empty_signature:
  assumes "\<forall>p \<in> set ins. \<exists>prevTx. prevTXs (EncodeToString (Txid (snd p))) = Some prevTx
             \<and> in_range (VoutIdx (snd p)) (Vout prevTx)"
    and "\<exists>p \<in> set ins. Signature (snd p) = []"
    and zero: "\<forall>pk h s. \<not> ecdsa_Verify L pk h 0 s"
  shows "verify_inputs L prevTXs ins txCopy = Done False"
  using assms(1,2)
proof (induction ins arbitrary: txCopy)
  case Nil
  then show ?case by simp
next
  case (Cons p ins)
  obtain inIdx vin where p: "p = (inIdx, vin)"
    by (cases p)
  from Cons.prems(1) obtain prevTx where
    prev: "prevTXs (EncodeToString (Txid vin)) = Some prevTx" "in_range (VoutIdx vin) (Vout prevTx)"
    by (auto simp add: p)
  from Cons.prems(1) have rest:
    "\<forall>p \<in> set ins. \<exists>prevTx. prevTXs (EncodeToString (Txid (snd p))) = Some prevTx
       \<and> in_range (VoutIdx (snd p)) (Vout prevTx)"
    by simp
  show ?case
  proof (cases "Signature vin = []")
    case True
    then show ?thesis
      using prev zero by (simp add: p Let_def SetBytes_Nil)
  next
    case False
    with Cons.prems(2) have "\<exists>p \<in> set ins. Signature (snd p) = []"
      by (simp add: p)
    from Cons.IH [OF rest this] show ?thesis
      using prev False by (simp add: p Let_def)
  qed
qed

lemma enumerate_snd_set: "snd ` set (enumerate n xs) = set xs"
proof -
  have "snd ` set (enumerate n xs) = set (map snd (enumerate n xs))"
    by (simp only: set_map)
  also have "\<dots> = set xs"
    by (simp only: map_snd_enumerate)
  finally show ?thesis .
qed

lemma Hash_tx_ID: "Hash_tx L (t\<lparr>ID := x\<rparr>) = Hash_tx L t"
  by (simp add: Hash_tx_def)

lemma TrimmedCopy_blank:
  "inIdx < length (Vin tx) \<Longrightarrow> PubKey (Vin (TrimmedCopy tx) ! inIdx) = []"
  by (simp add: TrimmedCopy_def)

lemma hash_input_TrimmedCopy:
  assumes "inIdx < length (Vin tx)"
  shows "hash_input L inIdx pubKeyHash ((TrimmedCopy tx)\<lparr>ID := x\<rparr>) =
         (TrimmedCopy tx)\<lparr>ID := signing_digest L tx inIdx pubKeyHash\<rparr>"
proof -
  let ?ins = "Vin (TrimmedCopy tx)"
  have len: "inIdx < length ?ins"
    using assms by (simp add: TrimmedCopy_def)
  have "?ins ! inIdx = (?ins ! inIdx)\<lparr>PubKey := []\<rparr>"
    using TrimmedCopy_blank [OF assms] by simp
  then have restored: "?ins[inIdx := (?ins ! inIdx)\<lparr>PubKey := []\<rparr>] = ?ins"
    by (metis list_update_id)
  have first: "set_PubKey inIdx pubKeyHash ((TrimmedCopy tx)\<lparr>ID := x\<rparr>) =
               (set_PubKey inIdx pubKeyHash (TrimmedCopy tx))\<lparr>ID := x\<rparr>"
    by (simp add: set_PubKey_def)
  show ?thesis
    using len restored
    by (simp add: hash_input_def Let_def first Hash_tx_ID signing_digest_def)
      (simp add: set_PubKey_def)
qed

lemma verify_inputs_accepts:
  assumes "\<forall>p \<in> set ins. fst p < length (Vin tx) \<and>
             (\<exists>prevTx. prevTXs (EncodeToString (Txid (snd p))) = Some prevTx
                \<and> in_range (VoutIdx (snd p)) (Vout prevTx))"
  shows "verify_inputs L prevTXs ins ((TrimmedCopy tx)\<lparr>ID := x\<rparr>) =
         Done (list_all (input_accepted L prevTXs tx) ins)"
  using assms
proof (induction ins arbitrary: x)
  case Nil
  show ?case by simp
next
  case (Cons p ins)
  obtain inIdx vin where p: "p = (inIdx, vin)"
    by (cases p)
  from Cons.prems obtain prevTx where
    idx: "inIdx < length (Vin tx)"
    and prev: "prevTXs (EncodeToString (Txid vin)) = Some prevTx"
      "in_range (VoutIdx vin) (Vout prevTx)"
    by (auto simp add: p)
  from Cons.prems have rest:
    "\<forall>p \<in> set ins. fst p < length (Vin tx) \<and>
       (\<exists>prevTx. prevTXs (EncodeToString (Txid (snd p))) = Some prevTx
          \<and> in_range (VoutIdx (snd p)) (Vout prevTx))"
    by simp
  note step = hash_input_TrimmedCopy [OF idx, of L _ x]
  show ?case
    using prev Cons.IH [OF rest]
    by (simp add: p Let_def step input_accepted_def)
qed

lemma enumerate_fst_bound: "p \<in> set (enumerate 0 xs) \<Longrightarrow> fst p < length xs"
  by (cases p) (simp add: in_set_enumerate_eq)

lemma TrimmedCopy_ID: "(TrimmedCopy tx)\<lparr>ID := ID tx\<rparr> = TrimmedCopy tx"
  by (simp add: TrimmedCopy_def)

text \<open>
  C7, as amended. For a transaction that is not a coinbase and whose inputs all refer to
  a transaction of \<open>prevTXs\<close> with an output index in range, Verify returns a boolean
  and never panics, whatever bytes the signatures and public keys hold. It returns
  false when some input has an empty public key, and, given that \<^verbatim>\<open>ecdsa.Verify\<close>
  rejects \<open>r = 0\<close>, when some input has an empty signature. For every other length,
  odd ones included, the two parts cut at half the length go to \<^verbatim>\<open>ecdsa.Verify\<close>, which
  decides: Verify returns true exactly when every input has a public key that is not
  empty and \<^verbatim>\<open>ecdsa.Verify\<close> accepts, for the input's signing hash, the two parts of its
  stored key and the two parts of its stored signature.
\<close>

theorem Verify_total_rejects_empty:
  assumes nc: "\<not> IsCoinbase tx"
    and refs: "\<forall>vin \<in> set (Vin tx). \<exists>prevTx.
                 prevTXs (EncodeToString (Txid vin)) = Some prevTx
                 \<and> in_range (VoutIdx vin) (Vout prevTx)"
  shows "(\<exists>b. Verify L tx prevTXs = Done b)
    \<and> ((\<exists>vin \<in> set (Vin tx). PubKey vin = []) \<longrightarrow> Verify L tx prevTXs = Done False)
    \<and> ((\<forall>pk h s. \<not> ecdsa_Verify L pk h 0 s) \<longrightarrow>
         (\<exists>vin \<in> set (Vin tx). Signature vin = []) \<longrightarrow> Verify L tx prevTXs = Done False)
    \<and> Verify L tx prevTXs =
        Done (list_all (input_accepted L prevTXs tx) (enumerate 0 (Vin tx)))"
proof -
  let ?ins = "enumerate 0 (Vin tx)"
  have set_ins: "snd ` set ?ins = set (Vin tx)"
    by (rule enumerate_snd_set)
  have refs': "\<forall>p \<in> set ?ins. \<exists>prevTx. prevTXs (EncodeToString (Txid (snd p))) = Some prevTx
                 \<and> in_range (VoutIdx (snd p)) (Vout prevTx)"
    using refs set_ins by blast
  have refs'': "\<forall>p \<in> set ?ins. fst p < length (Vin tx) \<and>
             (\<exists>prevTx. prevTXs (EncodeToString (Txid (snd p))) = Some prevTx
                \<and> in_range (VoutIdx (snd p)) (Vout prevTx))"
    using refs' enumerate_fst_bound by blast
  have V: "Verify L tx prevTXs = verify_inputs L prevTXs ?ins (TrimmedCopy tx)"
    using nc by (simp add: Verify_def)
  have total: "\<exists>b. Verify L tx prevTXs = Done b"
    unfolding V by (rule verify_inputs_total [OF refs'])
  have key: "Verify L tx prevTXs = Done False" if "\<exists>vin \<in> set (Vin tx). PubKey vin = []"
  proof -
    from that set_ins have "\<exists>p \<in> set ?ins. PubKey (snd p) = []"
      by (metis (no_types, lifting) imageE)
    then show ?thesis
      unfolding V by (rule verify_inputs_empty_key [OF refs'])
  qed
  have sig: "Verify L tx prevTXs = Done False"
    if zero: "\<forall>pk h s. \<not> ecdsa_Verify L pk h 0 s"
      and "\<exists>vin \<in> set (Vin tx). Signature vin = []"
  proof -
    from that(2) set_ins have "\<exists>p \<in> set ?ins. Signature (snd p) = []"
      by (metis (no_types, lifting) imageE)
    then show ?thesis
      unfolding V by (rule verify_inputs_empty_signature [OF refs' _ zero])
  qed
  have "Verify L tx prevTXs = verify_inputs L prevTXs ?ins ((TrimmedCopy tx)\<lparr>ID := ID tx\<rparr>)"
    unfolding V by (simp only: TrimmedCopy_ID)
  also have "\<dots> = Done (list_all (input_accepted L prevTXs tx) ?ins)"
    by (rule verify_inputs_accepts [OF refs''])
  finally have decided: "Verify L tx prevTXs = Done (list_all (input_accepted L prevTXs tx) ?ins)" .
  from total key sig decided show ?thesis
    by blast
qed

lemma demo_rejects_zero: "\<forall>pk h s. \<not> ecdsa_Verify demo_lib pk h 0 s"
  by (simp add: demo_lib_def demo_Verify_def demo_r_def)

text \<open>
  The theorem at the unsigned transfer, whose only input has an empty public key and an
  empty signature.
\<close>

theorem Verify_total_rejects_empty_witness:
  "\<not> IsCoinbase transfer_tx
   \<and> PubKey (hd (Vin transfer_tx)) = []
   \<and> Signature (hd (Vin transfer_tx)) = []
   \<and> Verify demo_lib transfer_tx (transfer_prevTXs owner_A) = Done False"
proof -
  have nc: "\<not> IsCoinbase transfer_tx"
    by (simp add: IsCoinbase_def transfer_tx_def)
  have refs: "\<forall>vin \<in> set (Vin transfer_tx). \<exists>prevTx.
                transfer_prevTXs owner_A (EncodeToString (Txid vin)) = Some prevTx
                \<and> in_range (VoutIdx vin) (Vout prevTx)"
    by (simp add: transfer_tx_def transfer_prevTXs_def funding_tx_def in_range_def)
  have empty: "\<exists>vin \<in> set (Vin transfer_tx). PubKey vin = []"
    by (simp add: transfer_tx_def)
  from Verify_total_rejects_empty [OF nc refs, of demo_lib] empty
  have "Verify demo_lib transfer_tx (transfer_prevTXs owner_A) = Done False"
    by blast
  with nc show ?thesis
    by (simp add: transfer_tx_def)
qed

subsection \<open>Coinbase transactions\<close>

text \<open>
  C5, as amended. NewCoinbaseTx returns a transaction with exactly one input, of empty
  Txid and Vout \<open>-1\<close>, and exactly one output, of value 15000. The output is paid to
  the bytes that \<open>to\<close> decodes to as a hex string when it is one, and to the bytes of the
  string \<open>to\<close> itself when it is not. IsCoinbase is true exactly for the transactions
  with one input of empty Txid and Vout \<open>-1\<close>, and Verify returns true for every such
  transaction, whatever \<open>prevTXs\<close> is.
\<close>

theorem coinbase_shape_and_validity:
  "Vin (NewCoinbaseTx L to data) =
     [\<lparr>Txid = [], VoutIdx = - 1, Signature = [],
       PubKey = bytes_of_string (if data = [] then ''Reward to '' @ to else data)\<rparr>]
   \<and> Vout (NewCoinbaseTx L to data) =
     [\<lparr>Value = 15000,
       PubKeyHash = (if snd (DecodeString to) then fst (DecodeString to)
                     else bytes_of_string to)\<rparr>]
   \<and> (IsCoinbase tx \<longleftrightarrow>
        (\<exists>txin. Vin tx = [txin] \<and> Txid txin = [] \<and> VoutIdx txin = - 1))
   \<and> (IsCoinbase tx \<longrightarrow> Verify L tx prevTXs = Done True)"
proof (intro conjI)
  show "Vin (NewCoinbaseTx L to data) =
     [\<lparr>Txid = [], VoutIdx = - 1, Signature = [],
       PubKey = bytes_of_string (if data = [] then ''Reward to '' @ to else data)\<rparr>]"
    by (simp add: NewCoinbaseTx_def SetID_def Let_def)
  show "Vout (NewCoinbaseTx L to data) =
     [\<lparr>Value = 15000,
       PubKeyHash = (if snd (DecodeString to) then fst (DecodeString to)
                     else bytes_of_string to)\<rparr>]"
    by (cases "to = []")
      (simp_all add: NewCoinbaseTx_def SetID_def Let_def bytes_of_string_def split: prod.splits)
  show "IsCoinbase tx \<longleftrightarrow>
        (\<exists>txin. Vin tx = [txin] \<and> Txid txin = [] \<and> VoutIdx txin = - 1)"
    by (cases "Vin tx") (auto simp add: IsCoinbase_def)
  show "IsCoinbase tx \<longrightarrow> Verify L tx prevTXs = Done True"
    by (simp add: Verify_def)
qed

text \<open>
  The theorem at the coinbase transaction that pays the address \<open>0a\<close>: it is a
  coinbase transaction, and it verifies against an empty map.
\<close>

theorem coinbase_shape_and_validity_witness:
  "IsCoinbase (NewCoinbaseTx demo_lib ''0a'' ''Genesis Block'')
   \<and> Vout (NewCoinbaseTx demo_lib ''0a'' ''Genesis Block'') =
       [\<lparr>Value = 15000, PubKeyHash = [0x0a]\<rparr>]
   \<and> Verify demo_lib (NewCoinbaseTx demo_lib ''0a'' ''Genesis Block'') Map.empty = Done True"
proof -
  note inst = coinbase_shape_and_validity
    [of demo_lib "''0a''" "''Genesis Block''"
      "NewCoinbaseTx demo_lib ''0a'' ''Genesis Block''" Map.empty]
  have cb: "IsCoinbase (NewCoinbaseTx demo_lib ''0a'' ''Genesis Block'')"
    by (simp add: IsCoinbase_def NewCoinbaseTx_def SetID_def Let_def)
  have dec: "DecodeString ''0a'' = ([0x0a], True)"
    by (simp add: fromHexChar_def)
  from inst cb dec show ?thesis
    by simp
qed

text \<open>
  C5 as stated fails for a recipient string that is not hexadecimal: \<open>zz\<close> does not
  decode, and the output is paid to the two bytes of the string.
\<close>

theorem coinbase_pays_undecoded_string:
  "\<not> snd (DecodeString ''zz'')
   \<and> Vout (NewCoinbaseTx demo_lib ''zz'' ''Genesis Block'') =
       [\<lparr>Value = 15000, PubKeyHash = [0x7a, 0x7a]\<rparr>]"
  by (simp add: NewCoinbaseTx_def SetID_def Let_def fromHexChar_def bytes_of_string_def)

subsection \<open>Proof of work\<close>

lemma wrap64_Suc: "0 \<le> k \<Longrightarrow> k + 1 < 2 ^ 63 \<Longrightarrow> wrap64 (k + 1) = k + 1"
  by (simp add: wrap64_def)

lemma run_from_hit:
  "meets_target L pow n \<Longrightarrow> run_from L pow n = Some (n, sha256 L (prepareData L pow n))"
  by (subst run_from.simps) (simp add: meets_target_def Let_def)

lemma run_from_miss:
  "\<not> meets_target L pow k \<Longrightarrow> run_from L pow k = run_from L pow (wrap64 (k + 1))"
  by (subst run_from.simps) (simp add: meets_target_def Let_def)

lemma run_from_reaches:
  assumes "meets_target L pow n" and "0 \<le> k" and "k \<le> n" and "n < 2 ^ 63"
    and "\<forall>m. k \<le> m \<and> m < n \<longrightarrow> \<not> meets_target L pow m"
  shows "run_from L pow k = Some (n, sha256 L (prepareData L pow n))"
  using assms
proof (induction "nat (n - k)" arbitrary: k)
  case 0
  then have "k = n" by simp
  with "0.prems"(1) show ?case
    by (simp add: run_from_hit)
next
  case (Suc d)
  then have lt: "k < n" by linarith
  with Suc.prems have miss: "\<not> meets_target L pow k"
    by simp
  have step: "wrap64 (k + 1) = k + 1"
    using Suc.prems lt by (intro wrap64_Suc) linarith+
  have "run_from L pow (k + 1) = Some (n, sha256 L (prepareData L pow n))"
  proof (rule Suc.hyps(1))
    show "d = nat (n - (k + 1))"
      using Suc.hyps(2) by linarith
    show "meets_target L pow n" by (rule Suc.prems(1))
    show "0 \<le> k + 1" using Suc.prems(2) by simp
    show "k + 1 \<le> n" using lt by simp
    show "n < 2 ^ 63" by (rule Suc.prems(4))
    show "\<forall>m. k + 1 \<le> m \<and> m < n \<longrightarrow> \<not> meets_target L pow m"
      using Suc.prems(5) by simp
  qed
  then show ?case
    by (simp add: run_from_miss [OF miss] step)
qed

lemma least_nonce:
  assumes "0 \<le> n" and "meets_target L pow n"
  shows "\<exists>n0. 0 \<le> n0 \<and> n0 \<le> n \<and> meets_target L pow n0
           \<and> (\<forall>m. 0 \<le> m \<and> m < n0 \<longrightarrow> \<not> meets_target L pow m)"
proof -
  define P where "P j \<longleftrightarrow> meets_target L pow (int j)" for j
  have Pn: "P (nat n)"
    using assms by (simp add: P_def)
  define j0 where "j0 = (LEAST j. P j)"
  have P0: "P j0"
    unfolding j0_def using Pn by (rule LeastI)
  have le: "j0 \<le> nat n"
    unfolding j0_def using Pn by (rule Least_le)
  have least: "\<not> P j" if "j < j0" for j
    using that unfolding j0_def by (rule not_less_Least)
  have "\<not> meets_target L pow m" if "0 \<le> m \<and> m < int j0" for m
  proof -
    from that have "nat m < j0" by linarith
    from least [OF this] that show ?thesis
      by (simp add: P_def)
  qed
  with P0 le assms(1) show ?thesis
    by (intro exI [of _ "int j0"]) (auto simp add: P_def)
qed

lemma prepareData_mined:
  "prepareData L (NewProofOfWork (b\<lparr>Hash := h, Nonce := k\<rparr>)) nonce =
   prepareData L (NewProofOfWork b) nonce"
  by (simp add: prepareData_def NewProofOfWork_def HashTransactions_def)

lemma Run_least:
  assumes ex: "\<exists>n. 0 \<le> n \<and> n < 2 ^ 63 \<and> meets_target L pow n"
  shows "\<exists>n0. Run L pow = Some (n0, sha256 L (prepareData L pow n0))
           \<and> 0 \<le> n0 \<and> meets_target L pow n0
           \<and> (\<forall>m. 0 \<le> m \<and> m < n0 \<longrightarrow> \<not> meets_target L pow m)"
proof -
  from ex obtain n where n: "0 \<le> n" "n < 2 ^ 63" "meets_target L pow n"
    by blast
  from least_nonce [OF n(1) n(3)] obtain n0 where
    n0: "0 \<le> n0" "n0 \<le> n" "meets_target L pow n0"
      "\<forall>m. 0 \<le> m \<and> m < n0 \<longrightarrow> \<not> meets_target L pow m"
    by blast
  have "Run L pow = Some (n0, sha256 L (prepareData L pow n0))"
    unfolding Run_def
  proof (rule run_from_reaches)
    show "meets_target L pow n0" by (rule n0(3))
    show "(0::int) \<le> 0" by simp
    show "0 \<le> n0" by (rule n0(1))
    show "n0 < 2 ^ 63" using n0(2) n(2) by linarith
    show "\<forall>m. 0 \<le> m \<and> m < n0 \<longrightarrow> \<not> meets_target L pow m" by (rule n0(4))
  qed
  with n0 show ?thesis
    by blast
qed

lemma NewBlock_mined:
  assumes run: "Run L (NewProofOfWork (mined_block t transactions prevHash)) = Some (n0, h)"
  shows "NewBlock L t transactions prevHash
         = Some ((mined_block t transactions prevHash)\<lparr>Hash := h, Nonce := n0\<rparr>)"
  using run by (simp add: NewBlock_def mined_block_def)

lemma Validate_mined:
  assumes "meets_target L (NewProofOfWork b) n0"
  shows "Validate L (NewProofOfWork (b\<lparr>Hash := h, Nonce := n0\<rparr>))"
proof -
  have "pow_target (NewProofOfWork (b\<lparr>Hash := h, Nonce := n0\<rparr>)) = pow_target (NewProofOfWork b)"
    "Nonce (pow_block (NewProofOfWork (b\<lparr>Hash := h, Nonce := n0\<rparr>))) = n0"
    by (simp_all add: NewProofOfWork_def)
  with assms show ?thesis
    by (simp add: Validate_def meets_target_def prepareData_mined)
qed

text \<open>
  C4. When some nonce from 0 up to the largest Go \<^verbatim>\<open>int\<close> meets the target, Run returns:
  its result is the least such nonce, together with the hash for it, so no smaller nonce
  from 0 on meets the target. Consequently NewBlock returns a block, the block carries
  that nonce and hash, and Validate holds for it.
\<close>

theorem Run_least_nonce_and_NewBlock_valid:
  assumes pow: "pow = NewProofOfWork (mined_block t transactions prevHash)"
    and ex: "\<exists>n. 0 \<le> n \<and> n < 2 ^ 63 \<and> meets_target L pow n"
  shows "\<exists>nonce block.
           Run L pow = Some (nonce, sha256 L (prepareData L pow nonce))
           \<and> 0 \<le> nonce \<and> meets_target L pow nonce
           \<and> (\<forall>m. 0 \<le> m \<and> m < nonce \<longrightarrow> \<not> meets_target L pow m)
           \<and> NewBlock L t transactions prevHash = Some block
           \<and> Nonce block = nonce
           \<and> Hash block = sha256 L (prepareData L pow nonce)
           \<and> Validate L (NewProofOfWork block)"
proof -
  from Run_least [OF ex] obtain n0 where
    run: "Run L pow = Some (n0, sha256 L (prepareData L pow n0))"
    and n0: "0 \<le> n0" "meets_target L pow n0"
      "\<forall>m. 0 \<le> m \<and> m < n0 \<longrightarrow> \<not> meets_target L pow m"
    by blast
  define block where
    "block = (mined_block t transactions prevHash)
               \<lparr>Hash := sha256 L (prepareData L pow n0), Nonce := n0\<rparr>"
  have new: "NewBlock L t transactions prevHash = Some block"
    unfolding block_def using run unfolding pow by (rule NewBlock_mined)
  have valid: "Validate L (NewProofOfWork block)"
    unfolding block_def using n0(2) unfolding pow by (rule Validate_mined)
  from run n0 new valid show ?thesis
    by (intro exI [of _ n0] exI [of _ block]) (simp add: block_def)
qed
lemma foldl_bytes:
  "foldl (\<lambda>acc b. acc * 256 + unat b) a xs =
   a * 256 ^ length xs + foldl (\<lambda>acc b. acc * 256 + unat b) 0 xs"
proof (induction xs arbitrary: a)
  case Nil
  show ?case by simp
next
  case (Cons x xs)
  let ?f = "\<lambda>acc b. acc * 256 + unat b"
  have "foldl ?f (a * 256 + unat x) xs = (a * 256 + unat x) * 256 ^ length xs + foldl ?f 0 xs"
    by (rule Cons.IH)
  moreover have "foldl ?f (unat x) xs = unat x * 256 ^ length xs + foldl ?f 0 xs"
    by (rule Cons.IH)
  ultimately show ?case
    by (simp add: algebra_simps)
qed

lemma SetBytes_Cons: "SetBytes (x # xs) = unat x * 256 ^ length xs + SetBytes xs"
  using foldl_bytes [of "unat x" xs] by (simp add: SetBytes_def)

lemma SetBytes_replicate_0: "SetBytes (replicate n 0) = 0"
  by (induction n) (simp_all add: SetBytes_Nil SetBytes_Cons)

lemma SetBytes_replicate_32: "c \<noteq> 0 \<Longrightarrow> 256 ^ 31 \<le> SetBytes (replicate 32 c)"
proof -
  assume "c \<noteq> 0"
  then have "1 \<le> unat c"
    by (simp add: unat_gt_0 Suc_leI)
  then have "1 * 256 ^ 31 \<le> unat c * 256 ^ 31"
    by (rule mult_le_mono1)
  moreover have "replicate 32 c = c # replicate 31 c"
    by (simp add: numeral_eq_Suc)
  ultimately show ?thesis
    by (simp add: SetBytes_Cons)
qed

lemma demo_pow_data:
  "sha256 demo_lib (prepareData demo_lib (NewProofOfWork b) k) =
   replicate 32 (of_nat ((sum_list (map unat (PrevHash b))
     + sum_list (map unat (HashTransactions demo_lib b))
     + sum_list (map unat (IntToHex (Timestamp b))) + 20
     + sum_list (map unat (IntToHex k))) mod 4))"
proof -
  have "sum_list (map unat (IntToHex (int targetBits))) = 20"
    by (simp add: targetBits_def IntToHex_def)
  then show ?thesis
    by (simp add: prepareData_def NewProofOfWork_def demo_lib_def demo_sha256_def add.assoc)
qed

lemma demo_pow_meets:
  "meets_target demo_lib (NewProofOfWork b) k \<longleftrightarrow>
   (sum_list (map unat (PrevHash b))
     + sum_list (map unat (HashTransactions demo_lib b))
     + sum_list (map unat (IntToHex (Timestamp b))) + 20
     + sum_list (map unat (IntToHex k))) mod 4 = 0"
  (is "_ \<longleftrightarrow> ?s mod 4 = 0")
proof (cases "?s mod 4 = 0")
  case True
  then show ?thesis
    unfolding meets_target_def demo_pow_data
    by (simp add: SetBytes_replicate_0 NewProofOfWork_def push_bit_eq_mult)
next
  case False
  define c :: byte where "c = of_nat (?s mod 4)"
  have "unat c = ?s mod 4"
    unfolding c_def by (simp add: unat_of_nat take_bit_eq_mod mod_mod_cancel)
  with False have "c \<noteq> 0"
    by (metis unat_0)
  from SetBytes_replicate_32 [OF this]
  have "\<not> SetBytes (replicate 32 c) < 2 ^ 236"
    by simp
  with False show ?thesis
    unfolding meets_target_def demo_pow_data c_def [symmetric]
    by (simp add: NewProofOfWork_def push_bit_eq_mult targetBits_def)
qed


text \<open>
  The theorem at \<open>demo_lib\<close> and the block with time stamp 1, no transaction and an
  empty previous hash: the nonces 0, 1 and 2 miss the target and 3 meets it, so Run
  returns 3 and the block of NewBlock validates.
\<close>

theorem Run_least_nonce_and_NewBlock_valid_witness:
  "Run demo_lib (NewProofOfWork (mined_block 1 [] [])) = Some (3, replicate 32 0)
   \<and> (\<exists>block. NewBlock demo_lib 1 [] [] = Some block \<and> Nonce block = 3
         \<and> Validate demo_lib (NewProofOfWork block))"
proof -
  let ?pow = "NewProofOfWork (mined_block 1 [] [])"
  have hit: "meets_target demo_lib ?pow 3"
    unfolding demo_pow_meets
    by (simp add: IntToHex_def mined_block_def HashTransactions_def demo_lib_def
        demo_sha256_def sum_list_replicate)
  have miss: "\<not> meets_target demo_lib ?pow 0" "\<not> meets_target demo_lib ?pow 1"
    "\<not> meets_target demo_lib ?pow 2"
    unfolding demo_pow_meets
    by (simp_all add: IntToHex_def mined_block_def HashTransactions_def demo_lib_def
        demo_sha256_def sum_list_replicate)
  have ex: "\<exists>n. 0 \<le> n \<and> n < 2 ^ 63 \<and> meets_target demo_lib ?pow n"
    using hit by (intro exI [of _ 3]) simp
  from Run_least_nonce_and_NewBlock_valid [OF refl ex]
  obtain nonce block where
    r: "Run demo_lib ?pow = Some (nonce, sha256 demo_lib (prepareData demo_lib ?pow nonce))"
    and n: "0 \<le> nonce" "meets_target demo_lib ?pow nonce"
      "\<forall>m. 0 \<le> m \<and> m < nonce \<longrightarrow> \<not> meets_target demo_lib ?pow m"
    and b: "NewBlock demo_lib 1 [] [] = Some block" "Nonce block = nonce"
      "Validate demo_lib (NewProofOfWork block)"
    by blast
  from n(3) hit have "nonce \<le> 3"
    by (meson not_le_imp_less zero_le_numeral)
  with n(1) have "nonce = 0 \<or> nonce = 1 \<or> nonce = 2 \<or> nonce = 3"
    by linarith
  with n(2) miss have three: "nonce = 3"
    by blast
  have h: "sha256 demo_lib (prepareData demo_lib ?pow 3) = replicate 32 0"
    unfolding demo_pow_data
    by (simp add: IntToHex_def mined_block_def HashTransactions_def demo_lib_def
        demo_sha256_def sum_list_replicate)
  from r b three h show ?thesis
    by auto
qed

subsection \<open>Sending with insufficient funds\<close>

lemma select_outs_nonpos:
  "amount \<le> 0 \<Longrightarrow> select_outs p amount k outs (False, 0, m) = (False, 0, m)"
proof (induction outs)
  case Nil
  show ?case by simp
next
  case (Cons a outs)
  then show ?case by (cases a) simp
qed

lemma fold_select_nonpos:
  "amount \<le> 0 \<Longrightarrow> fold (select_entry p amount U) ks (False, 0, m) = (False, 0, m)"
  by (induction ks) (simp_all add: select_entry_def select_outs_nonpos split: option.splits)

lemma FindSpendableOutputs_nonpos:
  assumes "amount \<le> 0" and "FindSpendableOutputs ks u p amount = Done (acc, sel)"
  shows "acc = 0"
  using assms
  by (auto simp add: FindSpendableOutputs_def fold_select_nonpos split: option.splits)

text \<open>
  C6. For a send request that reaches the lookup of spendable outputs (both addresses
  are non-empty and the private key is a hex string, the checks that come before it),
  when FindSpendableOutputs for the sender and the requested amount returns less than
  the amount, SendTransaction answers with the insufficient-funds error and leaves the
  server as it was: no transaction is built, no block is mined or appended, so the chain
  has the length it had, and nothing is sent to the row store.
\<close>

theorem SendTransaction_insufficient_funds:
  assumes from_ok: "ValidateAddress (From req)"
    and to_ok: "ValidateAddress (To req)"
    and key_ok: "snd (DecodeString (PrivKey req))"
    and found: "FindSpendableOutputs (range_order E) (srv_UTXO s)
                  (Some (fst (DecodeString (From req)))) (Amount req)
                = Done (accumulated, spendable)"
    and less: "accumulated < Amount req"
  shows "\<exists>s'. SendTransaction L E s (Some req)
                = Some (Done (HttpError ''insufficient funds'' 400, s'))
              \<and> s' = s
              \<and> length (Blocks (srv_BC s')) = length (Blocks (srv_BC s))"
proof -
  have pos: "0 < Amount req"
  proof (rule ccontr)
    assume "\<not> 0 < Amount req"
    then have "Amount req \<le> 0" by simp
    from FindSpendableOutputs_nonpos [OF this found] less this show False
      by simp
  qed
  have "SendTransaction L E s (Some req)
        = Some (Done (HttpError ''insufficient funds'' 400, s))"
    using from_ok to_ok key_ok pos found less by (simp add: SendTransaction_def Let_def)
  then show ?thesis
    by simp
qed

text \<open>
  The theorem at the server on the chain of two blocks and a request for 15001 units
  from the address \<open>0a\<close>: the map of the sender's outputs has the genesis transaction
  as its only key, the selection loop takes its output of 15000 and stops short of the
  amount, and the request is answered with the insufficient-funds error.
\<close>

theorem SendTransaction_insufficient_funds_witness:
  "dom (FindUTXO (srv_BC demo_server) (Some (fst (DecodeString ''0a''))))
     = set (range_order demo_deps)
   \<and> FindSpendableOutputs (range_order demo_deps) (srv_UTXO demo_server)
       (Some (fst (DecodeString ''0a''))) 15001
     = Done (15000, [EncodeToString (ID genesis_tx) \<mapsto> [0]])
   \<and> SendTransaction demo_lib demo_deps demo_server
       (Some \<lparr>From = ''0a'', To = ''0b'', Amount = 15001, PrivKey = ''2b''\<rparr>)
     = Some (Done (HttpError ''insufficient funds'' 400, demo_server))"
proof -
  let ?req = "\<lparr>From = ''0a'', To = ''0b'', Amount = 15001, PrivKey = ''2b''\<rparr>"
  have dec: "fst (DecodeString ''0a'') = owner_A"
    by (simp add: fromHexChar_def owner_A_def)
  have keys: "dom (FindUTXO (srv_BC demo_server) (Some (fst (DecodeString ''0a''))))
              = set (range_order demo_deps)"
    unfolding dec
    by (auto simp add: demo_server_def demo_deps_def chain_defs hex_defs scan_defs dom_def
        split: if_splits)
  have sel: "FindSpendableOutputs (range_order demo_deps) (srv_UTXO demo_server)
               (Some (fst (DecodeString ''0a''))) 15001
             = Done (15000, [EncodeToString (ID genesis_tx) \<mapsto> [0]])"
    unfolding dec
    by (simp add: demo_server_def demo_deps_def srv_UTXO_def chain_defs hex_defs scan_defs
        FindSpendableOutputs_def select_entry_def bytes_arg_def wrap64_def fun_eq_iff)
  have found: "FindSpendableOutputs (range_order demo_deps) (srv_UTXO demo_server)
                 (Some (fst (DecodeString (From ?req)))) (Amount ?req)
               = Done (15000, [EncodeToString (ID genesis_tx) \<mapsto> [0]])"
    using sel by simp
  have less: "(15000::int) < Amount ?req"
    by simp
  have from_ok: "ValidateAddress (From ?req)" and to_ok: "ValidateAddress (To ?req)"
    by (simp_all add: ValidateAddress_def)
  have key_ok: "snd (DecodeString (PrivKey ?req))"
    by (simp add: fromHexChar_def)
  from SendTransaction_insufficient_funds [OF from_ok to_ok key_ok found less, of demo_lib]
  have "SendTransaction demo_lib demo_deps demo_server (Some ?req)
        = Some (Done (HttpError ''insufficient funds'' 400, demo_server))"
    by auto
  with keys sel show ?thesis
    by simp
qed

subsection \<open>The faucet\<close>






end
